theory Spec2Isabelle
  imports Main
begin

section \<open>The hook useRealtimeWebRTC: data model\<close>

text \<open>
  The repository holds two variants of the hook \<^verbatim>\<open>useRealtimeWebRTC\<close> in
  \<^verbatim>\<open>src/lib/use-realtime-webrtc.ts\<close>: the first (lines 1-361) exchanges the session
  description through the \<^verbatim>\<open>/api/session\<close> proxy, the second (lines 362-735) fetches an
  ephemeral token and talks to the remote service directly.  Both keep the same refs and
  the same React state.  A definition that ends in \<open>1\<close> embeds a function of the first
  variant, one that ends in \<open>2\<close> the function of the same name in the second; a
  definition without a digit is the same text in both.

  The hook is single threaded: every callback runs to completion on the event loop.  A
  callback is therefore a function from the state of the hook and of the platform objects
  it has created to the next state.
\<close>

datatype status = Disconnected | Connecting | Connected | Error

record ConnectionState =
  status :: status
  error :: "string option"

text \<open>The platform's enumerations (RTCIceConnectionState, RTCPeerConnectionState,
  RTCDataChannelState).\<close>

datatype ice_state =
  Ice_new | Ice_checking | Ice_connected | Ice_completed | Ice_disconnected | Ice_failed | Ice_closed

datatype pc_state =
  Pc_new | Pc_connecting | Pc_connected | Pc_disconnected | Pc_failed | Pc_closed

datatype ready_state = Dc_connecting | Dc_open | Dc_closing | Dc_closed

text \<open>
  \<^verbatim>\<open>interface RealtimeEvent { type: string; [key: string]: any }\<close>.  The further fields hold
  any value; of those the model keeps text, numbers and BigInt values, the last because
  \<^verbatim>\<open>JSON.stringify\<close> throws a TypeError on them.
\<close>

datatype jsvalue = Text string | Number int | BigInt int

record RealtimeEvent =
  ev_type :: string
  ev_fields :: "(string \<times> jsvalue) list"

text \<open>
  A listener is a function \<^verbatim>\<open>(event: RealtimeEvent) => void\<close>.  The hook compares
  listeners by identity (\<^verbatim>\<open>l !== listener\<close>), which is \<open>lid\<close>; all the hook can
  observe of a call is whether it returns or throws, which is \<open>throws\<close>.
\<close>

record listener =
  lid :: nat
  throws :: "RealtimeEvent \<Rightarrow> bool"

text \<open>
  Platform objects live in a store and are named by their index, so that a closure that
  captured an object (\<^verbatim>\<open>pc\<close> in the ICE handler and in the grace timer, \<^verbatim>\<open>audioElement\<close>
  in \<^verbatim>\<open>ontrack\<close>, \<^verbatim>\<open>eventListeners\<close> in the message handler) still reaches it after
  the ref has been overwritten.
\<close>

record peer_connection =
  pc_closed :: bool
  iceConnectionState :: ice_state
  pcConnectionState :: pc_state
  ontrack :: "nat option"
  senders :: nat
  has_ice_handler :: bool
  has_conn_handler :: bool

record data_channel =
  readyState :: ready_state
  dc_owner :: nat
  onmessage :: "listener list option"
  onopen_connects :: bool
  sent :: "string list"

record audio_element =
  srcObject :: "nat option"
  removed :: bool

datatype timer_action = Reconnect | Grace nat

record timer =
  tid :: nat
  delay :: nat
  action :: timer_action

datatype level = Warn | Err

record hook_state =
  connectionState :: ConnectionState
  isSessionStarted :: bool
  pcRef :: "nat option"
  dcRef :: "nat option"
  audioElementRef :: "nat option"
  localStreamRef :: "nat option"
  reconnectTimeoutRef :: "nat option"
  connectionAttempts :: nat
  eventListeners :: "listener list"
  pcs :: "nat \<Rightarrow> peer_connection"
  nextPc :: nat
  dcs :: "nat \<Rightarrow> data_channel"
  nextDc :: nat
  streams :: "nat \<Rightarrow> bool list"
  nextStream :: nat
  audios :: "nat \<Rightarrow> audio_element"
  nextAudio :: nat
  timers :: "timer list"
  nextTimer :: nat
  console :: "(level \<times> string) list"
  delivered :: "(nat \<times> RealtimeEvent) list"
  requests :: "string list"
  send_rejects :: "string \<Rightarrow> string option"

text \<open>
  \<open>streams\<close> gives each MediaStream the list of its tracks, \<open>True\<close> for a track that has
  been stopped.  \<open>timers\<close> are the pending timeouts of \<^verbatim>\<open>setTimeout\<close>; \<open>delivered\<close> records
  every call of a listener, \<open>requests\<close> every session description posted to the signaling
  endpoint.  \<open>send_rejects m\<close> is the exception \<^verbatim>\<open>RTCDataChannel.send\<close> throws for the message
  \<open>m\<close> on an open channel (a TypeError beyond the transport's maximal message size, an
  OperationError when the buffer is full), \<open>None\<close> when it takes the message.  \<open>console\<close> keeps \<^verbatim>\<open>console.warn\<close> and \<^verbatim>\<open>console.error\<close>; the trace output of
  \<^verbatim>\<open>console.log\<close> and of the debugger is not part of the state.
\<close>

definition maxReconnectAttempts :: nat where
  [simp]: "maxReconnectAttempts = 3"

definition new_pc :: peer_connection where
  "new_pc = \<lparr>pc_closed = False, iceConnectionState = Ice_new, pcConnectionState = Pc_new,
     ontrack = None, senders = 0, has_ice_handler = False, has_conn_handler = False\<rparr>"

definition new_dc :: "nat \<Rightarrow> data_channel" where
  "new_dc p = \<lparr>readyState = Dc_connecting, dc_owner = p, onmessage = None,
     onopen_connects = False, sent = []\<rparr>"

definition new_audio :: audio_element where
  "new_audio = \<lparr>srcObject = None, removed = False\<rparr>"

definition init :: hook_state where
  "init = \<lparr>connectionState = \<lparr>status = Disconnected, error = None\<rparr>,
     isSessionStarted = False, pcRef = None, dcRef = None, audioElementRef = None,
     localStreamRef = None, reconnectTimeoutRef = None, connectionAttempts = 0,
     eventListeners = [], pcs = (\<lambda>_. new_pc), nextPc = 0, dcs = (\<lambda>_. new_dc 0), nextDc = 0,
     streams = (\<lambda>_. []), nextStream = 0, audios = (\<lambda>_. new_audio), nextAudio = 0,
     timers = [], nextTimer = 1, console = [], delivered = [], requests = [],
     send_rejects = (\<lambda>m. if 262144 < length m then Some ''TypeError'' else None)\<rparr>"

section \<open>Platform operations\<close>

definition setConnectionState :: "ConnectionState \<Rightarrow> hook_state \<Rightarrow> hook_state" where
  "setConnectionState c s = s\<lparr>connectionState := c\<rparr>"

definition console_warn :: "string \<Rightarrow> hook_state \<Rightarrow> hook_state" where
  "console_warn m s = s\<lparr>console := console s @ [(Warn, m)]\<rparr>"

definition console_error :: "string \<Rightarrow> hook_state \<Rightarrow> hook_state" where
  "console_error m s = s\<lparr>console := console s @ [(Err, m)]\<rparr>"

text \<open>\<^verbatim>\<open>setTimeout\<close> returns a fresh positive handle; \<^verbatim>\<open>clearTimeout\<close> of a handle that
  is not pending does nothing.\<close>

definition setTimeout :: "timer_action \<Rightarrow> nat \<Rightarrow> hook_state \<Rightarrow> nat \<times> hook_state" where
  "setTimeout a d s =
     (nextTimer s,
      s\<lparr>timers := timers s @ [\<lparr>tid = nextTimer s, delay = d, action = a\<rparr>],
        nextTimer := Suc (nextTimer s)\<rparr>)"

definition clearTimeout :: "nat \<Rightarrow> hook_state \<Rightarrow> hook_state" where
  "clearTimeout i s = s\<lparr>timers := filter (\<lambda>t. tid t \<noteq> i) (timers s)\<rparr>"

text \<open>\<^verbatim>\<open>pc.close()\<close> also moves the ICE and connection state of the connection to
  \<^verbatim>\<open>closed\<close>, without raising an event.\<close>

definition pc_close :: "nat \<Rightarrow> hook_state \<Rightarrow> hook_state" where
  "pc_close p s =
     s\<lparr>pcs := (pcs s)(p := (pcs s p)\<lparr>pc_closed := True, iceConnectionState := Ice_closed,
                                      pcConnectionState := Pc_closed\<rparr>)\<rparr>"

definition dc_close :: "nat \<Rightarrow> hook_state \<Rightarrow> hook_state" where
  "dc_close d s = s\<lparr>dcs := (dcs s)(d := (dcs s d)\<lparr>readyState := Dc_closed\<rparr>)\<rparr>"

text \<open>\<^verbatim>\<open>RTCDataChannel.send\<close> throws InvalidStateError unless the channel is open, and on an
  open channel whatever \<open>send_rejects\<close> says.  The result is \<open>Inl\<close> of the exception when the
  call throws; nothing has been written then.\<close>

definition dc_send :: "nat \<Rightarrow> string \<Rightarrow> hook_state \<Rightarrow> string + hook_state" where
  "dc_send d m s =
     (if readyState (dcs s d) \<noteq> Dc_open then Inl ''InvalidStateError''
      else
        (case send_rejects s m of
           Some x \<Rightarrow> Inl x
         | None \<Rightarrow> Inr (s\<lparr>dcs := (dcs s)(d := (dcs s d)\<lparr>sent := sent (dcs s d) @ [m]\<rparr>)\<rparr>)))"

section \<open>Listeners and outbound events\<close>

text \<open>\<^verbatim>\<open>addEventListener\<close> appends; the function it returns is \<open>removeEventListener\<close>.\<close>

definition addEventListener :: "listener \<Rightarrow> hook_state \<Rightarrow> hook_state" where
  "addEventListener l s = s\<lparr>eventListeners := eventListeners s @ [l]\<rparr>"

definition removeEventListener :: "listener \<Rightarrow> hook_state \<Rightarrow> hook_state" where
  "removeEventListener l s =
     s\<lparr>eventListeners := filter (\<lambda>x. lid x \<noteq> lid l) (eventListeners s)\<rparr>"

definition msg_not_ready :: string where
  "msg_not_ready = ''Data channel not ready, event not sent:''"

text \<open>
  \<open>stringify\<close> is \<^verbatim>\<open>JSON.stringify\<close>, \<open>None\<close> when it throws (a TypeError: a BigInt value, a
  cyclic structure).  The argument of \<^verbatim>\<open>send\<close> is evaluated inside the \<^verbatim>\<open>if\<close> branch only, and
  \<^verbatim>\<open>sendEvent\<close> has no \<^verbatim>\<open>try\<close>: an exception of \<^verbatim>\<open>JSON.stringify\<close> or of \<^verbatim>\<open>send\<close> is the
  exception of the call, \<open>Inl\<close>.
\<close>

definition sendEvent ::
  "(RealtimeEvent \<Rightarrow> string option) \<Rightarrow> RealtimeEvent \<Rightarrow> hook_state \<Rightarrow> string + hook_state" where
  "sendEvent stringify event s =
     (case dcRef s of
        Some d \<Rightarrow>
          if readyState (dcs s d) = Dc_open then
            (case stringify event of
               None \<Rightarrow> Inl ''TypeError''
             | Some m \<Rightarrow> dc_send d m s)
          else Inr (console_warn msg_not_ready s)
      | None \<Rightarrow> Inr (console_warn msg_not_ready s))"

section \<open>Reconnection\<close>

definition msg_max_attempts :: string where
  "msg_max_attempts = ''Max reconnection attempts reached''"

definition msg_exhausted :: string where
  "msg_exhausted =
     ''Connection failed after multiple attempts. Please check your network connection and try again.''"

definition clear_pending :: "hook_state \<Rightarrow> hook_state" where
  "clear_pending s = (case reconnectTimeoutRef s of None \<Rightarrow> s | Some i \<Rightarrow> clearTimeout i s)"

definition schedule :: "timer_action \<Rightarrow> nat \<Rightarrow> hook_state \<Rightarrow> hook_state" where
  "schedule a d s = (case setTimeout a d s of (i, s') \<Rightarrow> s'\<lparr>reconnectTimeoutRef := Some i\<rparr>)"

text \<open>
  \<open>clear_pending\<close> is \<^verbatim>\<open>if (reconnectTimeoutRef.current) clearTimeout(reconnectTimeoutRef.current)\<close>
  and \<open>schedule a d\<close> is \<^verbatim>\<open>reconnectTimeoutRef.current = setTimeout(a, d)\<close>.
\<close>

definition attemptReconnect1 :: "hook_state \<Rightarrow> hook_state" where
  "attemptReconnect1 s =
     (if connectionAttempts s < maxReconnectAttempts then
        let s1 = s\<lparr>connectionAttempts := connectionAttempts s + 1\<rparr>;
            s2 = clear_pending s1
        in schedule Reconnect (2000 * connectionAttempts s2) s2
      else
        setConnectionState \<lparr>status = Error, error = Some msg_exhausted\<rparr>
          (console_error msg_max_attempts s))"

definition close_pcRef :: "hook_state \<Rightarrow> hook_state" where
  "close_pcRef s = (case pcRef s of None \<Rightarrow> s | Some p \<Rightarrow> (pc_close p s)\<lparr>pcRef := None\<rparr>)"

definition close_dcRef :: "hook_state \<Rightarrow> hook_state" where
  "close_dcRef s = (case dcRef s of None \<Rightarrow> s | Some d \<Rightarrow> (dc_close d s)\<lparr>dcRef := None\<rparr>)"

definition attemptReconnect2 :: "hook_state \<Rightarrow> hook_state" where
  "attemptReconnect2 s =
     (if connectionAttempts s < maxReconnectAttempts then
        let s1 = s\<lparr>connectionAttempts := connectionAttempts s + 1\<rparr>;
            s2 = clear_pending s1;
            s3 = close_pcRef s2;
            s4 = close_dcRef s3
        in schedule Reconnect (2000 * connectionAttempts s4) s4
      else
        setConnectionState \<lparr>status = Error, error = Some msg_exhausted\<rparr>
          (console_error msg_max_attempts s))"

section \<open>Teardown\<close>

definition cancel_reconnect :: "hook_state \<Rightarrow> hook_state" where
  "cancel_reconnect s =
     (case reconnectTimeoutRef s of
        None \<Rightarrow> s
      | Some i \<Rightarrow> (clearTimeout i s)\<lparr>reconnectTimeoutRef := None\<rparr>)"

definition stop_localStream :: "hook_state \<Rightarrow> hook_state" where
  "stop_localStream s =
     (case localStreamRef s of
        None \<Rightarrow> s
      | Some m \<Rightarrow>
          s\<lparr>streams := (streams s)(m := map (\<lambda>_. True) (streams s m)), localStreamRef := None\<rparr>)"

definition remove_audioElement :: "hook_state \<Rightarrow> hook_state" where
  "remove_audioElement s =
     (case audioElementRef s of
        None \<Rightarrow> s
      | Some a \<Rightarrow>
          s\<lparr>audios := (audios s)(a := (audios s a)\<lparr>removed := True\<rparr>), audioElementRef := None\<rparr>)"

definition disconnect1 :: "hook_state \<Rightarrow> hook_state" where
  "disconnect1 s =
     (let s1 = cancel_reconnect s;
          s2 = s1\<lparr>connectionAttempts := 0\<rparr>;
          s3 = close_dcRef s2;
          s4 = close_pcRef s3;
          s5 = stop_localStream s4;
          s6 = remove_audioElement s5
      in setConnectionState \<lparr>status = Disconnected, error = None\<rparr> s6)"

definition disconnect2 :: "hook_state \<Rightarrow> hook_state" where
  "disconnect2 s =
     (let s1 = cancel_reconnect s;
          s2 = s1\<lparr>connectionAttempts := 0, isSessionStarted := False\<rparr>;
          s3 = close_dcRef s2;
          s4 = close_pcRef s3;
          s5 = stop_localStream s4;
          s6 = remove_audioElement s5
      in setConnectionState \<lparr>status = Disconnected, error = None\<rparr> s6)"

section \<open>State-change handlers of a peer connection\<close>

definition msg_ice_disconnected1 :: string where
  "msg_ice_disconnected1 = ''ICE connection disconnected, monitoring for recovery...''"

definition msg_ice_failed1 :: string where
  "msg_ice_failed1 = ''ICE connection failed permanently''"

text \<open>
  The handler is a closure over the connection \<open>p\<close> that \<^verbatim>\<open>connect\<close> created.  It reads
  \<^verbatim>\<open>pc.iceConnectionState\<close>; so does the callback of the grace timer, five seconds later.
\<close>

definition oniceconnectionstatechange1 :: "nat \<Rightarrow> hook_state \<Rightarrow> hook_state" where
  "oniceconnectionstatechange1 p s =
     (case iceConnectionState (pcs s p) of
        Ice_connected \<Rightarrow> s\<lparr>connectionAttempts := 0\<rparr>
      | Ice_completed \<Rightarrow> s\<lparr>connectionAttempts := 0\<rparr>
      | Ice_disconnected \<Rightarrow>
          schedule (Grace p) 5000 (clear_pending (console_warn msg_ice_disconnected1 s))
      | Ice_failed \<Rightarrow> attemptReconnect1 (console_error msg_ice_failed1 s)
      | Ice_closed \<Rightarrow> s
      | Ice_new \<Rightarrow> s
      | Ice_checking \<Rightarrow> s)"

definition grace_timeout1 :: "nat \<Rightarrow> hook_state \<Rightarrow> hook_state" where
  "grace_timeout1 p s =
     (if iceConnectionState (pcs s p) = Ice_disconnected \<or> iceConnectionState (pcs s p) = Ice_failed
      then attemptReconnect1 s else s)"

definition msg_ice_disconnected2 :: string where
  "msg_ice_disconnected2 = ''ICE connection disconnected''"

definition msg_ice_failed2 :: string where
  "msg_ice_failed2 = ''ICE connection failed''"

definition oniceconnectionstatechange2 :: "nat \<Rightarrow> hook_state \<Rightarrow> hook_state" where
  "oniceconnectionstatechange2 p s =
     (case iceConnectionState (pcs s p) of
        Ice_connected \<Rightarrow>
          (setConnectionState \<lparr>status = Connected, error = None\<rparr> s)\<lparr>connectionAttempts := 0\<rparr>
      | Ice_completed \<Rightarrow>
          (setConnectionState \<lparr>status = Connected, error = None\<rparr> s)\<lparr>connectionAttempts := 0\<rparr>
      | Ice_disconnected \<Rightarrow>
          schedule (Grace p) 5000 (clear_pending (console_warn msg_ice_disconnected2 s))
      | Ice_failed \<Rightarrow> attemptReconnect2 (console_error msg_ice_failed2 s)
      | Ice_closed \<Rightarrow> s
      | Ice_new \<Rightarrow> s
      | Ice_checking \<Rightarrow> s)"

definition grace_timeout2 :: "nat \<Rightarrow> hook_state \<Rightarrow> hook_state" where
  "grace_timeout2 p s =
     (if iceConnectionState (pcs s p) = Ice_disconnected \<or> iceConnectionState (pcs s p) = Ice_failed
      then attemptReconnect2 s else s)"

definition msg_pc_disconnected :: string where
  "msg_pc_disconnected = ''Connection disconnected, monitoring for recovery...''"

definition msg_pc_failed :: string where
  "msg_pc_failed = ''Connection failed permanently''"

text \<open>Only the first variant listens to \<^verbatim>\<open>connectionstatechange\<close>.\<close>

definition onconnectionstatechange1 :: "nat \<Rightarrow> hook_state \<Rightarrow> hook_state" where
  "onconnectionstatechange1 p s =
     (case pcConnectionState (pcs s p) of
        Pc_connecting \<Rightarrow> s
      | Pc_connected \<Rightarrow> setConnectionState \<lparr>status = Connected, error = None\<rparr> s
      | Pc_disconnected \<Rightarrow> console_warn msg_pc_disconnected s
      | Pc_failed \<Rightarrow>
          setConnectionState \<lparr>status = Disconnected, error = None\<rparr> (console_error msg_pc_failed s)
      | Pc_closed \<Rightarrow> setConnectionState \<lparr>status = Disconnected, error = None\<rparr> s
      | Pc_new \<Rightarrow> s)"

text \<open>
  \<^verbatim>\<open>pc.ontrack\<close>: \<open>has_stream\<close> is \<^verbatim>\<open>e.streams[0]\<close> being there, \<open>plays\<close> is the promise of
  \<^verbatim>\<open>audioElement.play()\<close> being fulfilled; a rejection goes to \<^verbatim>\<open>console.error\<close> (under the
  message below in the second variant, with the error alone in the first; the console of the
  model keeps one entry either way).
\<close>

definition msg_play_failed :: string where
  "msg_play_failed = ''Audio play failed:''"

definition ontrack_handler :: "nat \<Rightarrow> bool \<Rightarrow> bool \<Rightarrow> hook_state \<Rightarrow> hook_state" where
  "ontrack_handler p has_stream plays s =
     (case ontrack (pcs s p) of
        None \<Rightarrow> s
      | Some a \<Rightarrow>
          if has_stream then
            let s1 = s\<lparr>audios := (audios s)(a := (audios s a)\<lparr>srcObject := Some p\<rparr>)\<rparr>
            in if plays then s1 else console_error msg_play_failed s1
          else s)"

section \<open>Inbound events\<close>

definition msg_listener_error :: string where
  "msg_listener_error = ''Error in event listener:''"

definition msg_parse_error :: string where
  "msg_parse_error = ''Error parsing event data:''"

definition invoke :: "listener \<Rightarrow> RealtimeEvent \<Rightarrow> hook_state \<Rightarrow> hook_state" where
  "invoke l e s = s\<lparr>delivered := delivered s @ [(lid l, e)]\<rparr>"

text \<open>
  The first variant: \<^verbatim>\<open>eventListeners.forEach(listener => { try { listener(event) }
  catch (error) { console.error(...) } })\<close>.
\<close>

fun notify1 :: "listener list \<Rightarrow> RealtimeEvent \<Rightarrow> hook_state \<Rightarrow> hook_state" where
  "notify1 [] e s = s"
| "notify1 (l # ls) e s =
     notify1 ls e (if throws l e then console_error msg_listener_error (invoke l e s)
                   else invoke l e s)"

text \<open>\<open>parse\<close> is \<^verbatim>\<open>JSON.parse\<close>, \<open>None\<close> when it throws (or, in the first variant, when
  reading \<^verbatim>\<open>event.type\<close> of its result throws).\<close>

definition onmessage1 ::
  "(string \<Rightarrow> RealtimeEvent option) \<Rightarrow> listener list \<Rightarrow> string \<Rightarrow> hook_state \<Rightarrow> hook_state" where
  "onmessage1 parse ls data s =
     (case parse data of
        None \<Rightarrow> console_error msg_parse_error s
      | Some e \<Rightarrow> notify1 ls e s)"

text \<open>
  The second variant: \<^verbatim>\<open>eventListeners.forEach(listener => listener(event))\<close>, with no
  \<^verbatim>\<open>try\<close> around the call nor around \<^verbatim>\<open>JSON.parse\<close>.  The first component of the result says
  whether an exception left the handler.
\<close>

fun notify2 :: "listener list \<Rightarrow> RealtimeEvent \<Rightarrow> hook_state \<Rightarrow> bool \<times> hook_state" where
  "notify2 [] e s = (False, s)"
| "notify2 (l # ls) e s =
     (if throws l e then (True, invoke l e s) else notify2 ls e (invoke l e s))"

definition onmessage2 ::
  "(string \<Rightarrow> RealtimeEvent option) \<Rightarrow> listener list \<Rightarrow> string \<Rightarrow> hook_state
     \<Rightarrow> bool \<times> hook_state" where
  "onmessage2 parse ls data s =
     (case parse data of
        None \<Rightarrow> (True, s)
      | Some e \<Rightarrow> notify2 ls e s)"

section \<open>Opening a session\<close>

text \<open>
  \<^verbatim>\<open>connect\<close> is an async function.  What its awaits resolve to is decided outside the hook
  and is an argument of the model: one \<open>env\<close> holds the outcome of each await of one call.
  \<open>Rejected m\<close> is a promise rejected with an \<^verbatim>\<open>Error\<close> whose message is \<open>m\<close>, or with a value
  that is no \<^verbatim>\<open>Error\<close> when \<open>m\<close> is \<open>None\<close>.  The body runs to its end in one step; the
  30 second abort timer of the first variant lives and dies inside that step and is the
  field \<open>timed_out\<close>.
\<close>

datatype 'a outcome = Resolved 'a | Rejected "string option"

record response =
  resp_status :: nat
  resp_body :: string

record env =
  session_fetch :: "response outcome"
  session_json :: "unit outcome"
  media :: "nat outcome"
  offer :: "string outcome"
  timed_out :: bool
  sdp_fetch :: "response outcome"
  remote :: "unit outcome"

text \<open>
  \<open>session_fetch\<close> and \<open>session_json\<close> are the token request of the second variant and the
  reading of its JSON body; \<open>media\<close> is \<^verbatim>\<open>getUserMedia\<close> with the number of tracks of the
  stream; \<open>offer\<close> is \<^verbatim>\<open>createOffer\<close> followed by \<^verbatim>\<open>setLocalDescription\<close>, with
  \<^verbatim>\<open>offer.sdp\<close> (empty when missing); \<open>sdp_fetch\<close> is the POST of the offer and the reading of
  the answer; \<open>remote\<close> is \<^verbatim>\<open>setRemoteDescription\<close>.
\<close>

datatype completion = Normal | Threw "string option"

definition resp_ok :: "response \<Rightarrow> bool" where
  "resp_ok r = (200 \<le> resp_status r \<and> resp_status r < 300)"

fun string_of_nat :: "nat \<Rightarrow> string" where
  "string_of_nat n =
     (if n < 10 then [''0123456789'' ! n]
      else string_of_nat (n div 10) @ [''0123456789'' ! (n mod 10)])"

declare string_of_nat.simps [simp del]

definition msg_microphone :: string where
  "msg_microphone =
     ''Microphone access required for voice chat. Please grant permission and try again.''"

definition msg_microphone_error :: string where
  "msg_microphone_error = ''Error accessing microphone:''"

definition msg_no_offer :: string where
  "msg_no_offer = ''Failed to create SDP offer''"

definition msg_timeout :: string where
  "msg_timeout = ''Connection timeout. Please try again.''"

definition msg_api_key :: string where
  "msg_api_key = ''OpenAI API key invalid or missing Realtime API access''"

definition msg_session_failed :: string where
  "msg_session_failed = ''Session creation failed: ''"

definition msg_empty_sdp :: string where
  "msg_empty_sdp = ''Empty SDP response from server''"

definition msg_connection_error :: string where
  "msg_connection_error = ''Connection error:''"

definition msg_unknown_connection_error :: string where
  "msg_unknown_connection_error = ''Unknown connection error''"

text \<open>The constructor calls and ref assignments at the head of \<^verbatim>\<open>connect\<close>: a new peer
  connection, a new audio element, and \<^verbatim>\<open>pc.ontrack\<close> closed over that element.\<close>

definition create_pc_and_audio :: "hook_state \<Rightarrow> hook_state" where
  "create_pc_and_audio s =
     s\<lparr>pcs := (pcs s)(nextPc s := new_pc\<lparr>ontrack := Some (nextAudio s)\<rparr>),
       nextPc := Suc (nextPc s), pcRef := Some (nextPc s),
       audios := (audios s)(nextAudio s := new_audio),
       nextAudio := Suc (nextAudio s), audioElementRef := Some (nextAudio s)\<rparr>"

definition store_stream :: "nat \<Rightarrow> hook_state \<Rightarrow> hook_state" where
  "store_stream n s =
     s\<lparr>streams := (streams s)(nextStream s := replicate n False),
       nextStream := Suc (nextStream s), localStreamRef := Some (nextStream s)\<rparr>"

definition addTrack :: "nat \<Rightarrow> nat \<Rightarrow> hook_state \<Rightarrow> hook_state" where
  "addTrack p k s = s\<lparr>pcs := (pcs s)(p := (pcs s p)\<lparr>senders := senders (pcs s p) + k\<rparr>)\<rparr>"

definition createDataChannel :: "nat \<Rightarrow> listener list option \<Rightarrow> hook_state \<Rightarrow> hook_state" where
  "createDataChannel p h s =
     s\<lparr>dcs := (dcs s)(nextDc s := (new_dc p)\<lparr>onmessage := h\<rparr>),
       nextDc := Suc (nextDc s), dcRef := Some (nextDc s)\<rparr>"

definition set_handlers :: "nat \<Rightarrow> bool \<Rightarrow> hook_state \<Rightarrow> hook_state" where
  "set_handlers p conn s =
     s\<lparr>pcs := (pcs s)(p := (pcs s p)\<lparr>has_ice_handler := True, has_conn_handler := conn\<rparr>)\<rparr>"

definition post_sdp :: "string \<Rightarrow> hook_state \<Rightarrow> hook_state" where
  "post_sdp sdp s = s\<lparr>requests := requests s @ [sdp]\<rparr>"

text \<open>The first variant, from \<^verbatim>\<open>createOffer\<close> to the end of the \<^verbatim>\<open>try\<close> block.\<close>

definition signaling1 :: "env \<Rightarrow> hook_state \<Rightarrow> completion \<times> hook_state" where
  "signaling1 e s =
     (case offer e of
        Rejected x \<Rightarrow> (Threw x, s)
      | Resolved sdp \<Rightarrow>
          if sdp = [] then (Threw (Some msg_no_offer), s)
          else
            let s1 = post_sdp sdp s in
            if timed_out e then (Threw (Some msg_timeout), s1)
            else
              (case sdp_fetch e of
                 Rejected x \<Rightarrow> (Threw x, s1)
               | Resolved r \<Rightarrow>
                   if \<not> resp_ok r then
                     (if resp_status r = 401 then (Threw (Some msg_api_key), s1)
                      else (Threw (Some (msg_session_failed @ resp_body r)), s1))
                   else if resp_body r = [] then (Threw (Some msg_empty_sdp), s1)
                   else
                     (case remote e of
                        Rejected x \<Rightarrow> (Threw x, s1)
                      | Resolved _ \<Rightarrow> (Normal, s1\<lparr>connectionAttempts := 0\<rparr>))))"

text \<open>The \<^verbatim>\<open>try\<close> block of the first variant.  \<open>ls\<close> is the value of \<^verbatim>\<open>eventListeners\<close> in the
  render whose \<^verbatim>\<open>connect\<close> is called: the message handler keeps it.\<close>

definition connect1_try :: "listener list \<Rightarrow> env \<Rightarrow> hook_state \<Rightarrow> completion \<times> hook_state" where
  "connect1_try ls e s =
     (let s1 = setConnectionState \<lparr>status = Connecting, error = None\<rparr> s;
          p = nextPc s1;
          s2 = create_pc_and_audio s1
      in case media e of
           Rejected x \<Rightarrow> (Threw (Some msg_microphone), console_error msg_microphone_error s2)
         | Resolved n \<Rightarrow>
             let s3 = store_stream n s2;
                 s4 = (if 0 < n then addTrack p 1 s3 else s3);
                 s5 = createDataChannel p (Some ls) s4;
                 s6 = set_handlers p True s5
             in signaling1 e s6)"

definition connect1 :: "listener list \<Rightarrow> env \<Rightarrow> hook_state \<Rightarrow> hook_state" where
  "connect1 ls e s =
     (case connect1_try ls e s of
        (Normal, s') \<Rightarrow> s'
      | (Threw x, s') \<Rightarrow>
          let s1 = console_error msg_connection_error s';
              s2 = (if connectionAttempts s1 = 0 then
                      setConnectionState
                        \<lparr>status = Error,
                         error = Some (case x of Some m \<Rightarrow> m | None \<Rightarrow> msg_unknown_connection_error)\<rparr>
                        s1
                    else s1)
          in disconnect1 s2)"

definition msg_token_failed :: string where
  "msg_token_failed = ''Failed to get session token: ''"

definition msg_microphone_failed :: string where
  "msg_microphone_failed = ''Microphone access failed:''"

definition msg_exchange_failed :: string where
  "msg_exchange_failed = ''OpenAI SDP exchange failed: ''"

definition msg_connection_failed :: string where
  "msg_connection_failed = ''Connection failed:''"

definition msg_unknown_error :: string where
  "msg_unknown_error = ''Unknown error''"

definition attach_dc_listeners :: "listener list \<Rightarrow> hook_state \<Rightarrow> hook_state" where
  "attach_dc_listeners ls s =
     (case dcRef s of
        None \<Rightarrow> s
      | Some d \<Rightarrow>
          s\<lparr>dcs := (dcs s)(d := (dcs s d)\<lparr>onopen_connects := True, onmessage := Some ls\<rparr>)\<rparr>)"

text \<open>The second variant, from \<^verbatim>\<open>createOffer\<close> on.  The offer is posted as it is, and the
  listeners of the data channel are attached only after the answer has been applied.\<close>

definition signaling2 :: "listener list \<Rightarrow> env \<Rightarrow> hook_state \<Rightarrow> completion \<times> hook_state" where
  "signaling2 ls e s =
     (case offer e of
        Rejected x \<Rightarrow> (Threw x, s)
      | Resolved sdp \<Rightarrow>
          let s1 = post_sdp sdp s in
          (case sdp_fetch e of
             Rejected x \<Rightarrow> (Threw x, s1)
           | Resolved r \<Rightarrow>
               if \<not> resp_ok r then
                 (Threw (Some (msg_exchange_failed @ string_of_nat (resp_status r))), s1)
               else
                 (case remote e of
                    Rejected x \<Rightarrow> (Threw x, s1)
                  | Resolved _ \<Rightarrow>
                      (Normal, (attach_dc_listeners ls s1)\<lparr>connectionAttempts := 0\<rparr>))))"

text \<open>The \<^verbatim>\<open>try\<close> block of the second variant.  \<open>ls\<close> and \<open>started\<close> are the values of
  \<^verbatim>\<open>eventListeners\<close> and \<^verbatim>\<open>isSessionStarted\<close> in the render whose \<^verbatim>\<open>connect\<close> is called.\<close>

definition connect2_try ::
  "listener list \<Rightarrow> bool \<Rightarrow> env \<Rightarrow> hook_state \<Rightarrow> completion \<times> hook_state" where
  "connect2_try ls started e s =
     (let s1 = setConnectionState \<lparr>status = Connecting, error = None\<rparr> s in
      if started then (Normal, s1)
      else
        let s2 = s1\<lparr>isSessionStarted := True\<rparr> in
        (case session_fetch e of
           Rejected x \<Rightarrow> (Threw x, s2)
         | Resolved r \<Rightarrow>
             if \<not> resp_ok r then
               (Threw (Some (msg_token_failed @ string_of_nat (resp_status r))), s2)
             else
               (case session_json e of
                  Rejected x \<Rightarrow> (Threw x, s2)
                | Resolved _ \<Rightarrow>
                    let p = nextPc s2;
                        s3 = create_pc_and_audio s2
                    in (case media e of
                          Rejected x \<Rightarrow> (Threw x, console_error msg_microphone_failed s3)
                        | Resolved n \<Rightarrow>
                            let s4 = store_stream n s3;
                                s5 = addTrack p n s4;
                                s6 = createDataChannel p None s5;
                                s7 = set_handlers p False s6
                            in signaling2 ls e s7))))"

definition connect2 :: "listener list \<Rightarrow> bool \<Rightarrow> env \<Rightarrow> hook_state \<Rightarrow> hook_state" where
  "connect2 ls started e s =
     (case connect2_try ls started e s of
        (Normal, s') \<Rightarrow> s'
      | (Threw x, s') \<Rightarrow>
          let s1 = console_error msg_connection_failed s';
              s2 = setConnectionState
                     \<lparr>status = Error,
                      error = Some (case x of Some m \<Rightarrow> m | None \<Rightarrow> msg_unknown_error)\<rparr> s1
          in attemptReconnect2 s2)"

section \<open>Timers\<close>

text \<open>
  A pending timeout fires once and is then gone.  The callback that \<^verbatim>\<open>attemptReconnect\<close>
  schedules calls \<^verbatim>\<open>connect\<close>.  \<^verbatim>\<open>attemptReconnect\<close> is memoised with an empty dependency
  list, so the \<^verbatim>\<open>connect\<close> it reaches is the one of the first render, in which
  \<^verbatim>\<open>eventListeners\<close> is \<^verbatim>\<open>[]\<close> and \<^verbatim>\<open>isSessionStarted\<close> is \<^verbatim>\<open>false\<close>.  The \<^verbatim>\<open>try\<close> around that call
  catches nothing, since \<^verbatim>\<open>connect\<close> handles its own exceptions.
\<close>

definition pending :: "nat \<Rightarrow> hook_state \<Rightarrow> timer option" where
  "pending i s = find (\<lambda>t. tid t = i) (timers s)"

definition timer_fire1 :: "nat \<Rightarrow> env \<Rightarrow> hook_state \<Rightarrow> hook_state" where
  "timer_fire1 i e s =
     (case pending i s of
        None \<Rightarrow> s
      | Some t \<Rightarrow>
          (case action t of
             Reconnect \<Rightarrow> connect1 [] e (clearTimeout i s)
           | Grace p \<Rightarrow> grace_timeout1 p (clearTimeout i s)))"

definition timer_fire2 :: "nat \<Rightarrow> env \<Rightarrow> hook_state \<Rightarrow> hook_state" where
  "timer_fire2 i e s =
     (case pending i s of
        None \<Rightarrow> s
      | Some t \<Rightarrow>
          (case action t of
             Reconnect \<Rightarrow> connect2 [] False e (clearTimeout i s)
           | Grace p \<Rightarrow> grace_timeout2 p (clearTimeout i s)))"

section \<open>Runs of the hook\<close>

text \<open>
  What can happen to a mounted hook: a call of one of the functions it returns (for
  \<^verbatim>\<open>connect\<close> with the values its closure holds), a state change or a message raised by
  the platform on an object the hook created, or a timeout.  The platform raises no
  event on a peer connection that has been closed, nor on one that does not exist.  An
  exception of \<^verbatim>\<open>sendEvent\<close> goes to its caller and leaves the state as it was.
\<close>

datatype event =
    Call_connect "listener list" bool env
  | Call_disconnect
  | Call_sendEvent RealtimeEvent
  | Call_addEventListener listener
  | Call_unsubscribe listener
  | Ice_change nat ice_state
  | Pc_change nat pc_state
  | Remote_track nat bool bool
  | Dc_opened nat
  | Dc_message nat string
  | Timer_fired nat env

definition live_pc :: "nat \<Rightarrow> hook_state \<Rightarrow> bool" where
  "live_pc p s = (p < nextPc s \<and> \<not> pc_closed (pcs s p))"

definition live_dc :: "nat \<Rightarrow> hook_state \<Rightarrow> bool" where
  "live_dc d s = (d < nextDc s \<and> readyState (dcs s d) \<noteq> Dc_closed)"

definition set_ice :: "nat \<Rightarrow> ice_state \<Rightarrow> hook_state \<Rightarrow> hook_state" where
  "set_ice p st s = s\<lparr>pcs := (pcs s)(p := (pcs s p)\<lparr>iceConnectionState := st\<rparr>)\<rparr>"

definition set_pc_state :: "nat \<Rightarrow> pc_state \<Rightarrow> hook_state \<Rightarrow> hook_state" where
  "set_pc_state p st s = s\<lparr>pcs := (pcs s)(p := (pcs s p)\<lparr>pcConnectionState := st\<rparr>)\<rparr>"

definition set_open :: "nat \<Rightarrow> hook_state \<Rightarrow> hook_state" where
  "set_open d s = s\<lparr>dcs := (dcs s)(d := (dcs s d)\<lparr>readyState := Dc_open\<rparr>)\<rparr>"

definition ice_event1 :: "nat \<Rightarrow> ice_state \<Rightarrow> hook_state \<Rightarrow> hook_state" where
  "ice_event1 p st s =
     (if live_pc p s then
        (if has_ice_handler (pcs s p) then oniceconnectionstatechange1 p (set_ice p st s)
         else set_ice p st s)
      else s)"

definition ice_event2 :: "nat \<Rightarrow> ice_state \<Rightarrow> hook_state \<Rightarrow> hook_state" where
  "ice_event2 p st s =
     (if live_pc p s then
        (if has_ice_handler (pcs s p) then oniceconnectionstatechange2 p (set_ice p st s)
         else set_ice p st s)
      else s)"

definition pc_event1 :: "nat \<Rightarrow> pc_state \<Rightarrow> hook_state \<Rightarrow> hook_state" where
  "pc_event1 p st s =
     (if live_pc p s then
        (if has_conn_handler (pcs s p) then onconnectionstatechange1 p (set_pc_state p st s)
         else set_pc_state p st s)
      else s)"

definition pc_event2 :: "nat \<Rightarrow> pc_state \<Rightarrow> hook_state \<Rightarrow> hook_state" where
  "pc_event2 p st s = (if live_pc p s then set_pc_state p st s else s)"

definition track_event :: "nat \<Rightarrow> bool \<Rightarrow> bool \<Rightarrow> hook_state \<Rightarrow> hook_state" where
  "track_event p has_stream plays s =
     (if live_pc p s then ontrack_handler p has_stream plays s else s)"

definition open_event1 :: "nat \<Rightarrow> hook_state \<Rightarrow> hook_state" where
  "open_event1 d s = (if live_dc d s then set_open d s else s)"

definition open_event2 :: "nat \<Rightarrow> hook_state \<Rightarrow> hook_state" where
  "open_event2 d s =
     (if live_dc d s then
        (if onopen_connects (dcs s d)
         then setConnectionState \<lparr>status = Connected, error = None\<rparr> (set_open d s)
         else set_open d s)
      else s)"

definition message_event1 ::
  "(string \<Rightarrow> RealtimeEvent option) \<Rightarrow> nat \<Rightarrow> string \<Rightarrow> hook_state \<Rightarrow> hook_state" where
  "message_event1 parse d data s =
     (if live_dc d s then
        (case onmessage (dcs s d) of None \<Rightarrow> s | Some ls \<Rightarrow> onmessage1 parse ls data s)
      else s)"

definition message_event2 ::
  "(string \<Rightarrow> RealtimeEvent option) \<Rightarrow> nat \<Rightarrow> string \<Rightarrow> hook_state \<Rightarrow> hook_state" where
  "message_event2 parse d data s =
     (if live_dc d s then
        (case onmessage (dcs s d) of None \<Rightarrow> s | Some ls \<Rightarrow> snd (onmessage2 parse ls data s))
      else s)"

definition call_sendEvent ::
  "(RealtimeEvent \<Rightarrow> string option) \<Rightarrow> RealtimeEvent \<Rightarrow> hook_state \<Rightarrow> hook_state" where
  "call_sendEvent stringify ev s = (case sendEvent stringify ev s of Inl _ \<Rightarrow> s | Inr s' \<Rightarrow> s')"

fun step1 ::
  "(RealtimeEvent \<Rightarrow> string option) \<Rightarrow> (string \<Rightarrow> RealtimeEvent option) \<Rightarrow> event \<Rightarrow> hook_state
     \<Rightarrow> hook_state" where
  "step1 sf pf (Call_connect ls started e) s = connect1 ls e s"
| "step1 sf pf Call_disconnect s = disconnect1 s"
| "step1 sf pf (Call_sendEvent ev) s = call_sendEvent sf ev s"
| "step1 sf pf (Call_addEventListener l) s = addEventListener l s"
| "step1 sf pf (Call_unsubscribe l) s = removeEventListener l s"
| "step1 sf pf (Ice_change p st) s = ice_event1 p st s"
| "step1 sf pf (Pc_change p st) s = pc_event1 p st s"
| "step1 sf pf (Remote_track p has_stream plays) s = track_event p has_stream plays s"
| "step1 sf pf (Dc_opened d) s = open_event1 d s"
| "step1 sf pf (Dc_message d data) s = message_event1 pf d data s"
| "step1 sf pf (Timer_fired i e) s = timer_fire1 i e s"

fun step2 ::
  "(RealtimeEvent \<Rightarrow> string option) \<Rightarrow> (string \<Rightarrow> RealtimeEvent option) \<Rightarrow> event \<Rightarrow> hook_state
     \<Rightarrow> hook_state" where
  "step2 sf pf (Call_connect ls started e) s = connect2 ls started e s"
| "step2 sf pf Call_disconnect s = disconnect2 s"
| "step2 sf pf (Call_sendEvent ev) s = call_sendEvent sf ev s"
| "step2 sf pf (Call_addEventListener l) s = addEventListener l s"
| "step2 sf pf (Call_unsubscribe l) s = removeEventListener l s"
| "step2 sf pf (Ice_change p st) s = ice_event2 p st s"
| "step2 sf pf (Pc_change p st) s = pc_event2 p st s"
| "step2 sf pf (Remote_track p has_stream plays) s = track_event p has_stream plays s"
| "step2 sf pf (Dc_opened d) s = open_event2 d s"
| "step2 sf pf (Dc_message d data) s = message_event2 pf d data s"
| "step2 sf pf (Timer_fired i e) s = timer_fire2 i e s"

fun run1 ::
  "(RealtimeEvent \<Rightarrow> string option) \<Rightarrow> (string \<Rightarrow> RealtimeEvent option) \<Rightarrow> event list \<Rightarrow> hook_state
     \<Rightarrow> hook_state" where
  "run1 sf pf [] s = s"
| "run1 sf pf (ev # evs) s = run1 sf pf evs (step1 sf pf ev s)"

fun run2 ::
  "(RealtimeEvent \<Rightarrow> string option) \<Rightarrow> (string \<Rightarrow> RealtimeEvent option) \<Rightarrow> event list \<Rightarrow> hook_state
     \<Rightarrow> hook_state" where
  "run2 sf pf [] s = s"
| "run2 sf pf (ev # evs) s = run2 sf pf evs (step2 sf pf ev s)"

section \<open>Predicates on states\<close>

text \<open>
  At most one timeout is pending, and it is the one \<^verbatim>\<open>reconnectTimeoutRef\<close> holds: every
  \<^verbatim>\<open>setTimeout\<close> of the hook is preceded by \<^verbatim>\<open>clearTimeout\<close> of the ref and its handle is
  stored in the ref.
\<close>

definition timers_ok :: "hook_state \<Rightarrow> bool" where
  "timers_ok s =
     (timers s = [] \<or> map (\<lambda>t. Some (tid t)) (timers s) = [reconnectTimeoutRef s])"

definition same_timers :: "hook_state \<Rightarrow> hook_state \<Rightarrow> bool" where
  "same_timers s s' = (timers s' = timers s \<and> reconnectTimeoutRef s' = reconnectTimeoutRef s)"

text \<open>A notification of ICE state \<^verbatim>\<open>disconnected\<close>, or of a state \<open>st\<close>, on a connection that
  carries the handler: the platform has set the state, then the handler runs.\<close>

definition ice_disconnected1 :: "nat \<Rightarrow> hook_state \<Rightarrow> hook_state" where
  "ice_disconnected1 p s = oniceconnectionstatechange1 p (set_ice p Ice_disconnected s)"

definition ice_disconnected2 :: "nat \<Rightarrow> hook_state \<Rightarrow> hook_state" where
  "ice_disconnected2 p s = oniceconnectionstatechange2 p (set_ice p Ice_disconnected s)"

definition ice_recovered1 :: "nat \<Rightarrow> ice_state \<Rightarrow> hook_state \<Rightarrow> hook_state" where
  "ice_recovered1 p st s = oniceconnectionstatechange1 p (set_ice p st s)"

definition ice_recovered2 :: "nat \<Rightarrow> ice_state \<Rightarrow> hook_state \<Rightarrow> hook_state" where
  "ice_recovered2 p st s = oniceconnectionstatechange2 p (set_ice p st s)"

definition still_down :: "nat \<Rightarrow> hook_state \<Rightarrow> bool" where
  "still_down p s =
     (iceConnectionState (pcs s p) = Ice_disconnected \<or> iceConnectionState (pcs s p) = Ice_failed)"

text \<open>What \<^verbatim>\<open>disconnect\<close> leaves of a state, written as one update.\<close>

definition released :: "hook_state \<Rightarrow> hook_state" where
  "released s =
     s\<lparr>pcRef := None, dcRef := None, audioElementRef := None, localStreamRef := None,
       reconnectTimeoutRef := None, connectionAttempts := 0,
       connectionState := \<lparr>status = Disconnected, error = None\<rparr>,
       timers := (case reconnectTimeoutRef s of None \<Rightarrow> timers s
                  | Some i \<Rightarrow> filter (\<lambda>t. tid t \<noteq> i) (timers s)),
       dcs := (case dcRef s of None \<Rightarrow> dcs s
               | Some d \<Rightarrow> (dcs s)(d := (dcs s d)\<lparr>readyState := Dc_closed\<rparr>)),
       pcs := (case pcRef s of None \<Rightarrow> pcs s
               | Some p \<Rightarrow> (pcs s)(p := (pcs s p)\<lparr>pc_closed := True,
                    iceConnectionState := Ice_closed, pcConnectionState := Pc_closed\<rparr>)),
       streams := (case localStreamRef s of None \<Rightarrow> streams s
                   | Some m \<Rightarrow> (streams s)(m := map (\<lambda>_. True) (streams s m))),
       audios := (case audioElementRef s of None \<Rightarrow> audios s
                  | Some a \<Rightarrow> (audios s)(a := (audios s a)\<lparr>removed := True\<rparr>))\<rparr>"

text \<open>
  \<open>handle_released s s'\<close>: in \<open>s'\<close> the refs are empty and everything the refs of \<open>s\<close> held
  is closed, stopped or removed.  \<open>all_owned s\<close>: every object of the store that is still
  live is the one its ref holds.  \<open>nothing_live s\<close>: no object of the store is live.
\<close>

definition handle_released :: "hook_state \<Rightarrow> hook_state \<Rightarrow> bool" where
  "handle_released s s' =
     (pcRef s' = None \<and> dcRef s' = None \<and> localStreamRef s' = None \<and>
      audioElementRef s' = None \<and> reconnectTimeoutRef s' = None \<and>
      (case pcRef s of None \<Rightarrow> True | Some p \<Rightarrow> pc_closed (pcs s' p)) \<and>
      (case dcRef s of None \<Rightarrow> True | Some d \<Rightarrow> readyState (dcs s' d) = Dc_closed) \<and>
      (case localStreamRef s of None \<Rightarrow> True
       | Some m \<Rightarrow> list_all (\<lambda>stopped. stopped) (streams s' m) \<and>
                  length (streams s' m) = length (streams s m)) \<and>
      (case audioElementRef s of None \<Rightarrow> True | Some a \<Rightarrow> removed (audios s' a)) \<and>
      connectionState s' = \<lparr>status = Disconnected, error = None\<rparr>)"

definition all_owned :: "hook_state \<Rightarrow> bool" where
  "all_owned s =
     ((\<forall>p < nextPc s. \<not> pc_closed (pcs s p) \<longrightarrow> pcRef s = Some p) \<and>
      (\<forall>d < nextDc s. readyState (dcs s d) \<noteq> Dc_closed \<longrightarrow> dcRef s = Some d) \<and>
      (\<forall>m < nextStream s.
          \<not> list_all (\<lambda>stopped. stopped) (streams s m) \<longrightarrow> localStreamRef s = Some m))"

definition nothing_live :: "hook_state \<Rightarrow> bool" where
  "nothing_live s =
     ((\<forall>p < nextPc s. pc_closed (pcs s p)) \<and>
      (\<forall>d < nextDc s. readyState (dcs s d) = Dc_closed) \<and>
      (\<forall>m < nextStream s. list_all (\<lambda>stopped. stopped) (streams s m)))"

section \<open>Sample inputs\<close>

text \<open>An environment in which every await succeeds, and one in which the signaling
  endpoints answer 500.\<close>

definition ok_env :: env where
  "ok_env = \<lparr>session_fetch = Resolved \<lparr>resp_status = 200, resp_body = ''{}''\<rparr>,
     session_json = Resolved (), media = Resolved 1, offer = Resolved ''v=0'',
     timed_out = False, sdp_fetch = Resolved \<lparr>resp_status = 200, resp_body = ''v=0''\<rparr>,
     remote = Resolved ()\<rparr>"

definition down_env :: env where
  "down_env = ok_env\<lparr>session_fetch := Resolved \<lparr>resp_status = 500, resp_body = []\<rparr>,
     sdp_fetch := Resolved \<lparr>resp_status = 500, resp_body = []\<rparr>\<rparr>"

text \<open>A serializer that throws on an event with a BigInt value, and otherwise stands
  for the text of an event by its type.\<close>

definition is_bigint :: "string \<times> jsvalue \<Rightarrow> bool" where
  "is_bigint f = (case snd f of BigInt _ \<Rightarrow> True | _ \<Rightarrow> False)"

definition stringify0 :: "RealtimeEvent \<Rightarrow> string option" where
  "stringify0 e = (if list_ex is_bigint (ev_fields e) then None else Some (ev_type e))"

definition parse0 :: "string \<Rightarrow> RealtimeEvent option" where
  "parse0 d = (if d = [] then None else Some \<lparr>ev_type = d, ev_fields = []\<rparr>)"

definition hello :: RealtimeEvent where
  "hello = \<lparr>ev_type = ''response.create'', ev_fields = []\<rparr>"

definition counted :: RealtimeEvent where
  "counted = \<lparr>ev_type = ''response.create'', ev_fields = [(''count'', BigInt 1)]\<rparr>"

definition oversized :: RealtimeEvent where
  "oversized = \<lparr>ev_type = replicate 262145 (CHR ''x''), ev_fields = []\<rparr>"

definition thrower :: listener where
  "thrower = \<lparr>lid = 0, throws = (\<lambda>_. True)\<rparr>"

definition quiet :: listener where
  "quiet = \<lparr>lid = 1, throws = (\<lambda>_. False)\<rparr>"

definition connected :: "event list" where
  "connected = [Call_connect [] False ok_env, Dc_opened 0, Ice_change 0 Ice_connected]"

definition one_failure :: "event list" where
  "one_failure = connected @ [Ice_change 0 Ice_failed]"

definition three_failures :: "event list" where
  "three_failures =
     [Call_connect [] False ok_env, Ice_change 0 Ice_failed, Ice_change 0 Ice_checking,
      Ice_change 0 Ice_failed, Ice_change 0 Ice_checking, Ice_change 0 Ice_failed]"

definition outage1 :: "event list" where
  "outage1 = [Call_connect [] False down_env]"

definition outage2 :: "event list" where
  "outage2 = [Call_connect [] False down_env, Timer_fired 1 down_env]"

definition outage3 :: "event list" where
  "outage3 = [Call_connect [] False down_env, Timer_fired 1 down_env, Timer_fired 2 down_env]"

definition blip :: "event list" where
  "blip = connected @ [Ice_change 0 Ice_disconnected]"

definition recovery :: "event list" where
  "recovery = blip @ [Ice_change 0 Ice_connected]"

definition twice :: "event list" where
  "twice = [Call_connect [] False ok_env, Call_connect [] False ok_env]"

definition established :: "event list" where
  "established = [Call_connect [] False ok_env, Pc_change 0 Pc_connected]"

definition outage4 :: "event list" where
  "outage4 = outage3 @ [Timer_fired 3 down_env]"

definition reconnected :: "event list" where
  "reconnected = one_failure @ [Timer_fired 1 ok_env]"

definition exhausted1 :: "event list" where
  "exhausted1 = three_failures @ [Ice_change 0 Ice_checking, Ice_change 0 Ice_failed]"

definition exhausted2 :: "event list" where
  "exhausted2 =
     [Call_connect [] False down_env, Call_connect [] False down_env,
      Call_connect [] False down_env, Call_connect [] False down_env]"

definition subscribed :: "event list" where
  "subscribed =
     [Call_addEventListener thrower, Call_addEventListener quiet,
      Call_connect [thrower, quiet] False ok_env, Dc_opened 0, Dc_message 0 ''session.created'']"

definition resubscribed :: "event list" where
  "resubscribed =
     [Call_addEventListener quiet, Call_connect [quiet] False ok_env, Dc_opened 0,
      Ice_change 0 Ice_connected, Ice_change 0 Ice_failed, Timer_fired 1 ok_env, Dc_opened 1,
      Dc_message 1 ''session.created'']"

section \<open>The timer invariant\<close>

text \<open>Most operations leave the pending timeouts and \<^verbatim>\<open>reconnectTimeoutRef\<close> alone.\<close>

lemma same_timers_refl [simp]: "same_timers s s"
  by (simp add: same_timers_def)

lemma same_timers_trans: "same_timers s s' \<Longrightarrow> same_timers s' s'' \<Longrightarrow> same_timers s s''"
  by (simp add: same_timers_def)

lemma same_timers_ok: "same_timers s s' \<Longrightarrow> timers_ok s \<Longrightarrow> timers_ok s'"
  by (simp add: same_timers_def timers_ok_def)

lemmas frame_defs =
  setConnectionState_def console_warn_def console_error_def pc_close_def dc_close_def
  close_pcRef_def close_dcRef_def stop_localStream_def remove_audioElement_def
  create_pc_and_audio_def store_stream_def addTrack_def createDataChannel_def
  set_handlers_def post_sdp_def attach_dc_listeners_def set_ice_def set_pc_state_def
  set_open_def invoke_def addEventListener_def removeEventListener_def

lemma same_timers_frame [simp]:
  "same_timers s (setConnectionState c s)"
  "same_timers s (console_warn m s)"
  "same_timers s (console_error m s)"
  "same_timers s (pc_close p s)"
  "same_timers s (dc_close d s)"
  "same_timers s (close_pcRef s)"
  "same_timers s (close_dcRef s)"
  "same_timers s (stop_localStream s)"
  "same_timers s (remove_audioElement s)"
  "same_timers s (create_pc_and_audio s)"
  "same_timers s (store_stream n s)"
  "same_timers s (addTrack p k s)"
  "same_timers s (createDataChannel p h s)"
  "same_timers s (set_handlers p b s)"
  "same_timers s (post_sdp sdp s)"
  "same_timers s (attach_dc_listeners ls s)"
  "same_timers s (set_ice p st s)"
  "same_timers s (set_pc_state p pst s)"
  "same_timers s (set_open d s)"
  "same_timers s (invoke l ev s)"
  "same_timers s (addEventListener l s)"
  "same_timers s (removeEventListener l s)"
  by (simp_all add: same_timers_def frame_defs split: option.splits)

lemma timers_ok_cases:
  "timers_ok s \<Longrightarrow> timers s = [] \<or> (\<exists>t. timers s = [t] \<and> reconnectTimeoutRef s = Some (tid t))"
  by (auto simp: timers_ok_def map_eq_Cons_conv)

lemma timers_clear_pending: "timers_ok s \<Longrightarrow> timers (clear_pending s) = []"
  by (auto dest!: timers_ok_cases simp: clear_pending_def clearTimeout_def split: option.splits)

lemma timers_schedule:
  "timers (schedule a d s) = timers s @ [\<lparr>tid = nextTimer s, delay = d, action = a\<rparr>]"
  "reconnectTimeoutRef (schedule a d s) = Some (nextTimer s)"
  by (simp_all add: schedule_def setTimeout_def)

lemma timers_ok_rearm: "timers_ok s \<Longrightarrow> timers_ok (schedule a d (clear_pending s))"
  by (simp add: timers_schedule timers_clear_pending timers_ok_def)


lemma timers_ok_same_attempts [simp]:
  "timers_ok (s\<lparr>connectionAttempts := n\<rparr>) = timers_ok s"
  "timers_ok (s\<lparr>isSessionStarted := b\<rparr>) = timers_ok s"
  by (simp_all add: timers_ok_def)

lemma same_timers_fields [simp]:
  "same_timers s (s\<lparr>connectionAttempts := n\<rparr>)"
  "same_timers s (s\<lparr>isSessionStarted := b\<rparr>)"
  by (simp_all add: same_timers_def)

lemma timers_ok_frame:
  "same_timers s s' \<Longrightarrow> timers_ok s' = timers_ok s"
  by (simp add: same_timers_def timers_ok_def)

lemma timers_ok_clearTimeout: "timers_ok s \<Longrightarrow> timers_ok (clearTimeout i s)"
  by (drule timers_ok_cases, elim disjE exE conjE) (simp_all add: timers_ok_def clearTimeout_def)

lemma timers_cancel_reconnect:
  "timers_ok s \<Longrightarrow> timers (cancel_reconnect s) = [] \<and> reconnectTimeoutRef (cancel_reconnect s) = None"
  by (auto dest!: timers_ok_cases simp: cancel_reconnect_def clearTimeout_def split: option.splits)

lemma timers_ok_attemptReconnect1: "timers_ok s \<Longrightarrow> timers_ok (attemptReconnect1 s)"
proof (cases "connectionAttempts s < maxReconnectAttempts")
  case True
  assume "timers_ok s"
  then have "timers_ok (s\<lparr>connectionAttempts := connectionAttempts s + 1\<rparr>)" by simp
  then show ?thesis using True by (simp add: attemptReconnect1_def Let_def timers_ok_rearm)
next
  case False
  assume "timers_ok s"
  moreover have "same_timers s (attemptReconnect1 s)"
    using False by (simp add: attemptReconnect1_def same_timers_def frame_defs)
  ultimately show ?thesis by (rule same_timers_ok [rotated])
qed


lemma timers_ok_attemptReconnect2: "timers_ok s \<Longrightarrow> timers_ok (attemptReconnect2 s)"
proof (cases "connectionAttempts s < maxReconnectAttempts")
  case True
  assume ok: "timers_ok s"
  let ?s2 = "clear_pending (s\<lparr>connectionAttempts := connectionAttempts s + 1\<rparr>)"
  have e: "timers ?s2 = []" using ok by (simp add: timers_clear_pending)
  have "same_timers ?s2 (close_dcRef (close_pcRef ?s2))"
    by (rule same_timers_trans [OF same_timers_frame(6) same_timers_frame(7)])
  then have "timers (close_dcRef (close_pcRef ?s2)) = []"
    using e by (simp add: same_timers_def)
  then show ?thesis using True
    by (simp add: attemptReconnect2_def Let_def timers_schedule timers_ok_def)
next
  case False
  assume "timers_ok s"
  moreover have "same_timers s (attemptReconnect2 s)"
    using False by (simp add: attemptReconnect2_def same_timers_def frame_defs)
  ultimately show ?thesis by (rule same_timers_ok [rotated])
qed

lemma same_timers_teardown:
  "same_timers s (remove_audioElement (stop_localStream (close_pcRef (close_dcRef s))))"
  by (meson same_timers_frame(6-9) same_timers_trans)

lemma timers_disconnect1:
  "timers_ok s \<Longrightarrow> timers (disconnect1 s) = [] \<and> reconnectTimeoutRef (disconnect1 s) = None"
proof -
  assume ok: "timers_ok s"
  let ?s2 = "(cancel_reconnect s)\<lparr>connectionAttempts := 0\<rparr>"
  have "timers ?s2 = [] \<and> reconnectTimeoutRef ?s2 = None"
    using timers_cancel_reconnect [OF ok] by simp
  moreover have "same_timers ?s2 (disconnect1 s)"
    using same_timers_teardown [of ?s2]
    by (simp add: disconnect1_def Let_def same_timers_def setConnectionState_def)
  ultimately show ?thesis by (simp add: same_timers_def)
qed

lemma timers_disconnect2:
  "timers_ok s \<Longrightarrow> timers (disconnect2 s) = [] \<and> reconnectTimeoutRef (disconnect2 s) = None"
proof -
  assume ok: "timers_ok s"
  let ?s2 = "(cancel_reconnect s)\<lparr>connectionAttempts := 0, isSessionStarted := False\<rparr>"
  have "timers ?s2 = [] \<and> reconnectTimeoutRef ?s2 = None"
    using timers_cancel_reconnect [OF ok] by simp
  moreover have "same_timers ?s2 (disconnect2 s)"
    using same_timers_teardown [of ?s2]
    by (simp add: disconnect2_def Let_def same_timers_def setConnectionState_def)
  ultimately show ?thesis by (simp add: same_timers_def)
qed

lemma timers_ok_empty: "timers s = [] \<Longrightarrow> timers_ok s"
  by (simp add: timers_ok_def)

lemma same_timers_signaling1: "same_timers s (snd (signaling1 e s))"
  by (simp add: signaling1_def Let_def same_timers_def post_sdp_def
        split: outcome.splits)

lemma same_timers_connect1_try: "same_timers s (snd (connect1_try ls e s))"
  by (simp add: connect1_try_def Let_def same_timers_def frame_defs signaling1_def
        split: outcome.splits)

lemma timers_ok_connect1: "timers_ok s \<Longrightarrow> timers_ok (connect1 ls e s)"
proof -
  assume ok: "timers_ok s"
  obtain c s' where r: "connect1_try ls e s = (c, s')" by (cases "connect1_try ls e s")
  have st: "same_timers s s'" using same_timers_connect1_try [of s ls e] r by simp
  then have ok': "timers_ok s'" using ok by (rule same_timers_ok)
  show ?thesis
  proof (cases c)
    case Normal
    then show ?thesis using r ok' by (simp add: connect1_def)
  next
    case (Threw x)
    let ?s2 = "if connectionAttempts (console_error msg_connection_error s') = 0
               then setConnectionState \<lparr>status = Error,
                      error = Some (case x of Some m \<Rightarrow> m | None \<Rightarrow> msg_unknown_connection_error)\<rparr>
                      (console_error msg_connection_error s')
               else console_error msg_connection_error s'"
    have "same_timers s' ?s2" by (simp add: same_timers_def frame_defs)
    then have "timers_ok ?s2" using ok' by (rule same_timers_ok)
    then have "timers (disconnect1 ?s2) = []" by (simp add: timers_disconnect1)
    then show ?thesis using r Threw by (simp add: connect1_def Let_def timers_ok_empty)
  qed
qed


lemma same_timers_signaling2: "same_timers s (snd (signaling2 ls e s))"
  by (simp add: signaling2_def Let_def same_timers_def frame_defs
        split: outcome.splits option.splits)

lemma same_timers_connect2_try: "same_timers s (snd (connect2_try ls b e s))"
  by (simp add: connect2_try_def Let_def same_timers_def frame_defs signaling2_def
        split: outcome.splits option.splits)

lemma timers_ok_connect2: "timers_ok s \<Longrightarrow> timers_ok (connect2 ls b e s)"
proof -
  assume ok: "timers_ok s"
  obtain c s' where r: "connect2_try ls b e s = (c, s')" by (cases "connect2_try ls b e s")
  have st: "same_timers s s'" using same_timers_connect2_try [of s ls b e] r by simp
  then have ok': "timers_ok s'" using ok by (rule same_timers_ok)
  show ?thesis
  proof (cases c)
    case Normal
    then show ?thesis using r ok' by (simp add: connect2_def)
  next
    case (Threw x)
    let ?s2 = "setConnectionState \<lparr>status = Error,
                      error = Some (case x of Some m \<Rightarrow> m | None \<Rightarrow> msg_unknown_error)\<rparr>
                      (console_error msg_connection_failed s')"
    have "same_timers s' ?s2" by (simp add: same_timers_def frame_defs)
    then have "timers_ok ?s2" using ok' by (rule same_timers_ok)
    then have "timers_ok (attemptReconnect2 ?s2)" by (rule timers_ok_attemptReconnect2)
    then show ?thesis using r Threw by (simp add: connect2_def Let_def)
  qed
qed

lemma timers_ok_console [simp]:
  "timers_ok (console_warn m s) = timers_ok s"
  "timers_ok (console_error m s) = timers_ok s"
  "timers_ok (setConnectionState c s) = timers_ok s"
  "timers_ok (set_ice p st s) = timers_ok s"
  "timers_ok (set_pc_state p pst s) = timers_ok s"
  "timers_ok (set_open d s) = timers_ok s"
  by (simp_all add: timers_ok_def frame_defs)

lemma timers_ok_onice1: "timers_ok s \<Longrightarrow> timers_ok (oniceconnectionstatechange1 p s)"
  by (cases "iceConnectionState (pcs s p)")
     (simp_all add: oniceconnectionstatechange1_def timers_ok_rearm timers_ok_attemptReconnect1)

lemma timers_ok_onice2: "timers_ok s \<Longrightarrow> timers_ok (oniceconnectionstatechange2 p s)"
  by (cases "iceConnectionState (pcs s p)")
     (simp_all add: oniceconnectionstatechange2_def timers_ok_rearm timers_ok_attemptReconnect2)

lemma timers_ok_grace1: "timers_ok s \<Longrightarrow> timers_ok (grace_timeout1 p s)"
  by (simp add: grace_timeout1_def timers_ok_attemptReconnect1)

lemma timers_ok_grace2: "timers_ok s \<Longrightarrow> timers_ok (grace_timeout2 p s)"
  by (simp add: grace_timeout2_def timers_ok_attemptReconnect2)

lemma timers_ok_timer_fire1: "timers_ok s \<Longrightarrow> timers_ok (timer_fire1 i e s)"
  by (simp add: timer_fire1_def timers_ok_clearTimeout timers_ok_connect1 timers_ok_grace1
        split: option.splits timer_action.splits)

lemma timers_ok_timer_fire2: "timers_ok s \<Longrightarrow> timers_ok (timer_fire2 i e s)"
  by (simp add: timer_fire2_def timers_ok_clearTimeout timers_ok_connect2 timers_ok_grace2
        split: option.splits timer_action.splits)

lemma same_timers_notify1: "same_timers s (notify1 ls ev s)"
proof (induction ls arbitrary: s)
  case Nil
  show ?case by simp
next
  case (Cons l ls)
  have "same_timers s (if throws l ev then console_error msg_listener_error (invoke l ev s)
                       else invoke l ev s)"
    by (simp add: same_timers_def frame_defs)
  then show ?case using Cons [of "if throws l ev then console_error msg_listener_error (invoke l ev s)
                       else invoke l ev s"]
    by (simp add: same_timers_def)
qed

lemma same_timers_notify2: "same_timers s (snd (notify2 ls ev s))"
proof (induction ls arbitrary: s)
  case Nil
  show ?case by simp
next
  case (Cons l ls)
  show ?case using Cons [of "invoke l ev s"]
    by (simp add: same_timers_def frame_defs)
qed

lemma same_timers_events:
  "same_timers s (pc_event1 p pst s)"
  "same_timers s (pc_event2 p pst s)"
  "same_timers s (track_event p b c s)"
  "same_timers s (open_event1 d s)"
  "same_timers s (open_event2 d s)"
  "same_timers s (call_sendEvent sf ev s)"
  by (simp_all add: pc_event1_def pc_event2_def track_event_def open_event1_def open_event2_def
        call_sendEvent_def sendEvent_def dc_send_def onconnectionstatechange1_def
        ontrack_handler_def Let_def same_timers_def frame_defs
        split: option.splits pc_state.splits sum.splits)

lemma same_timers_message1: "same_timers s (message_event1 pf d data s)"
  using same_timers_notify1
  by (simp add: message_event1_def onmessage1_def split: option.splits)

lemma same_timers_message2: "same_timers s (message_event2 pf d data s)"
  using same_timers_notify2
  by (simp add: message_event2_def onmessage2_def split: option.splits)

lemma timers_ok_step1: "timers_ok s \<Longrightarrow> timers_ok (step1 sf pf ev s)"
proof (cases ev)
  case (Ice_change p st)
  assume "timers_ok s"
  then show ?thesis using Ice_change by (simp add: ice_event1_def timers_ok_onice1)
next
  case Call_disconnect
  assume "timers_ok s"
  then show ?thesis using Call_disconnect by (simp add: timers_disconnect1 timers_ok_empty)
qed (auto simp: timers_ok_connect1 timers_ok_timer_fire1
       intro: same_timers_ok [OF same_timers_events(1)] same_timers_ok [OF same_timers_events(3)]
         same_timers_ok [OF same_timers_events(4)] same_timers_ok [OF same_timers_events(6)]
         same_timers_ok [OF same_timers_message1] same_timers_ok [OF same_timers_frame(21)]
         same_timers_ok [OF same_timers_frame(22)])

lemma timers_ok_step2: "timers_ok s \<Longrightarrow> timers_ok (step2 sf pf ev s)"
proof (cases ev)
  case (Ice_change p st)
  assume "timers_ok s"
  then show ?thesis using Ice_change by (simp add: ice_event2_def timers_ok_onice2)
next
  case Call_disconnect
  assume "timers_ok s"
  then show ?thesis using Call_disconnect by (simp add: timers_disconnect2 timers_ok_empty)
qed (auto simp: timers_ok_connect2 timers_ok_timer_fire2
       intro: same_timers_ok [OF same_timers_events(2)] same_timers_ok [OF same_timers_events(3)]
         same_timers_ok [OF same_timers_events(5)] same_timers_ok [OF same_timers_events(6)]
         same_timers_ok [OF same_timers_message2] same_timers_ok [OF same_timers_frame(21)]
         same_timers_ok [OF same_timers_frame(22)])

lemma timers_ok_run1: "timers_ok s \<Longrightarrow> timers_ok (run1 sf pf evs s)"
  by (induction evs arbitrary: s) (simp_all add: timers_ok_step1)

lemma timers_ok_run2: "timers_ok s \<Longrightarrow> timers_ok (run2 sf pf evs s)"
  by (induction evs arbitrary: s) (simp_all add: timers_ok_step2)

lemma timers_ok_init: "timers_ok init"
  by (simp add: timers_ok_def init_def)

section \<open>Evaluation and basic facts\<close>

lemmas all_defs = ok_env_def down_env_def stringify0_def is_bigint_def parse0_def init_def
  setConnectionState_def console_warn_def console_error_def pc_close_def dc_close_def
  close_pcRef_def close_dcRef_def stop_localStream_def remove_audioElement_def
  create_pc_and_audio_def store_stream_def addTrack_def createDataChannel_def
  set_handlers_def post_sdp_def attach_dc_listeners_def set_ice_def set_pc_state_def
  set_open_def invoke_def addEventListener_def removeEventListener_def
  setTimeout_def clearTimeout_def clear_pending_def schedule_def cancel_reconnect_def
  attemptReconnect1_def attemptReconnect2_def disconnect1_def disconnect2_def
  oniceconnectionstatechange1_def oniceconnectionstatechange2_def grace_timeout1_def grace_timeout2_def
  onconnectionstatechange1_def ontrack_handler_def onmessage1_def onmessage2_def
  signaling1_def signaling2_def connect1_try_def connect2_try_def connect1_def connect2_def
  pending_def timer_fire1_def timer_fire2_def live_pc_def live_dc_def
  ice_event1_def ice_event2_def pc_event1_def pc_event2_def track_event_def open_event1_def open_event2_def
  message_event1_def message_event2_def call_sendEvent_def sendEvent_def dc_send_def
  resp_ok_def new_pc_def new_dc_def new_audio_def Let_def


lemma attemptReconnect1_exhausted:
  "maxReconnectAttempts \<le> connectionAttempts s \<Longrightarrow>
     attemptReconnect1 s =
       s\<lparr>console := console s @ [(Err, msg_max_attempts)],
         connectionState := \<lparr>status = Error, error = Some msg_exhausted\<rparr>\<rparr>"
  by (simp add: attemptReconnect1_def setConnectionState_def console_error_def)

lemma attemptReconnect2_exhausted:
  "maxReconnectAttempts \<le> connectionAttempts s \<Longrightarrow>
     attemptReconnect2 s =
       s\<lparr>console := console s @ [(Err, msg_max_attempts)],
         connectionState := \<lparr>status = Error, error = Some msg_exhausted\<rparr>\<rparr>"
  by (simp add: attemptReconnect2_def setConnectionState_def console_error_def)

lemma attemptReconnect1_schedules:
  assumes "connectionAttempts s < maxReconnectAttempts"
  shows "connectionAttempts (attemptReconnect1 s) = connectionAttempts s + 1"
    and "timers (attemptReconnect1 s) =
           timers (clear_pending s) @
             [\<lparr>tid = nextTimer s, delay = 2000 * (connectionAttempts s + 1), action = Reconnect\<rparr>]"
    and "reconnectTimeoutRef (attemptReconnect1 s) = Some (nextTimer s)"
    and "connectionState (attemptReconnect1 s) = connectionState s"
    and "requests (attemptReconnect1 s) = requests s"
  using assms
  by (simp_all add: attemptReconnect1_def Let_def schedule_def setTimeout_def clear_pending_def
        clearTimeout_def split: option.splits)

lemma attemptReconnect2_schedules:
  assumes "connectionAttempts s < maxReconnectAttempts"
  shows "connectionAttempts (attemptReconnect2 s) = connectionAttempts s + 1"
    and "timers (attemptReconnect2 s) =
           timers (clear_pending s) @
             [\<lparr>tid = nextTimer s, delay = 2000 * (connectionAttempts s + 1), action = Reconnect\<rparr>]"
    and "reconnectTimeoutRef (attemptReconnect2 s) = Some (nextTimer s)"
    and "connectionState (attemptReconnect2 s) = connectionState s"
    and "requests (attemptReconnect2 s) = requests s"
  using assms
  by (simp_all add: attemptReconnect2_def Let_def schedule_def setTimeout_def clear_pending_def
        clearTimeout_def close_pcRef_def close_dcRef_def pc_close_def dc_close_def
        split: option.splits)

lemma reachable1_ok: "timers_ok (run1 sf pf evs init)"
  by (simp add: timers_ok_run1 timers_ok_init)

lemma reachable2_ok: "timers_ok (run2 sf pf evs init)"
  by (simp add: timers_ok_run2 timers_ok_init)

lemma attemptReconnect1_changes: "attemptReconnect1 s \<noteq> s"
proof
  assume e: "attemptReconnect1 s = s"
  show False
  proof (cases "connectionAttempts s < maxReconnectAttempts")
    case True
    then show False using attemptReconnect1_schedules(1) [OF True] e by simp
  next
    case False
    then have "console (attemptReconnect1 s) = console s @ [(Err, msg_max_attempts)]"
      by (simp add: attemptReconnect1_exhausted)
    then show False using e by simp
  qed
qed

lemma attemptReconnect2_changes: "attemptReconnect2 s \<noteq> s"
proof
  assume e: "attemptReconnect2 s = s"
  show False
  proof (cases "connectionAttempts s < maxReconnectAttempts")
    case True
    then show False using attemptReconnect2_schedules(1) [OF True] e by simp
  next
    case False
    then have "console (attemptReconnect2 s) = console s @ [(Err, msg_max_attempts)]"
      by (simp add: attemptReconnect2_exhausted)
    then show False using e by simp
  qed
qed

lemma grace_fire1:
  "pending i u = Some t \<Longrightarrow> action t = Grace p \<Longrightarrow>
     timer_fire1 i e u = grace_timeout1 p (clearTimeout i u)"
  by (simp add: timer_fire1_def)

lemma grace_fire2:
  "pending i u = Some t \<Longrightarrow> action t = Grace p \<Longrightarrow>
     timer_fire2 i e u = grace_timeout2 p (clearTimeout i u)"
  by (simp add: timer_fire2_def)

lemma pcs_clearTimeout [simp]: "pcs (clearTimeout i u) = pcs u"
  by (simp add: clearTimeout_def)

lemma onice1_disconnected:
  assumes "timers_ok s"
  shows "timers (oniceconnectionstatechange1 p (set_ice p Ice_disconnected s)) =
           [\<lparr>tid = nextTimer s, delay = 5000, action = Grace p\<rparr>]"
    and "reconnectTimeoutRef (oniceconnectionstatechange1 p (set_ice p Ice_disconnected s)) =
           Some (nextTimer s)"
    and "nextTimer (oniceconnectionstatechange1 p (set_ice p Ice_disconnected s)) = Suc (nextTimer s)"
    and "connectionAttempts (oniceconnectionstatechange1 p (set_ice p Ice_disconnected s)) =
           connectionAttempts s"
    and "connectionState (oniceconnectionstatechange1 p (set_ice p Ice_disconnected s)) =
           connectionState s"
    and "requests (oniceconnectionstatechange1 p (set_ice p Ice_disconnected s)) = requests s"
    and "pcRef (oniceconnectionstatechange1 p (set_ice p Ice_disconnected s)) = pcRef s"
    and "nextPc (oniceconnectionstatechange1 p (set_ice p Ice_disconnected s)) = nextPc s"
proof -
  let ?w = "console_warn msg_ice_disconnected1 (set_ice p Ice_disconnected s)"
  have h: "oniceconnectionstatechange1 p (set_ice p Ice_disconnected s) =
             schedule (Grace p) 5000 (clear_pending ?w)"
    by (simp add: oniceconnectionstatechange1_def set_ice_def console_warn_def)
  have ok: "timers_ok ?w" using assms by simp
  have f: "nextTimer (clear_pending ?w) = nextTimer s"
    "connectionAttempts (clear_pending ?w) = connectionAttempts s"
    "connectionState (clear_pending ?w) = connectionState s"
    "requests (clear_pending ?w) = requests s"
    "pcRef (clear_pending ?w) = pcRef s"
    "nextPc (clear_pending ?w) = nextPc s"
    by (simp_all add: clear_pending_def clearTimeout_def console_warn_def set_ice_def
          split: option.splits)
  show "timers (oniceconnectionstatechange1 p (set_ice p Ice_disconnected s)) =
           [\<lparr>tid = nextTimer s, delay = 5000, action = Grace p\<rparr>]"
    by (simp add: h timers_schedule timers_clear_pending [OF ok] f)
  show "reconnectTimeoutRef (oniceconnectionstatechange1 p (set_ice p Ice_disconnected s)) =
           Some (nextTimer s)"
    by (simp add: h timers_schedule f)
  show "nextTimer (oniceconnectionstatechange1 p (set_ice p Ice_disconnected s)) = Suc (nextTimer s)"
    "connectionAttempts (oniceconnectionstatechange1 p (set_ice p Ice_disconnected s)) =
           connectionAttempts s"
    "connectionState (oniceconnectionstatechange1 p (set_ice p Ice_disconnected s)) =
           connectionState s"
    "requests (oniceconnectionstatechange1 p (set_ice p Ice_disconnected s)) = requests s"
    "pcRef (oniceconnectionstatechange1 p (set_ice p Ice_disconnected s)) = pcRef s"
    "nextPc (oniceconnectionstatechange1 p (set_ice p Ice_disconnected s)) = nextPc s"
    using f by (simp_all add: h schedule_def setTimeout_def)
qed

lemma onice2_disconnected:
  assumes "timers_ok s"
  shows "timers (oniceconnectionstatechange2 p (set_ice p Ice_disconnected s)) =
           [\<lparr>tid = nextTimer s, delay = 5000, action = Grace p\<rparr>]"
    and "reconnectTimeoutRef (oniceconnectionstatechange2 p (set_ice p Ice_disconnected s)) =
           Some (nextTimer s)"
    and "nextTimer (oniceconnectionstatechange2 p (set_ice p Ice_disconnected s)) = Suc (nextTimer s)"
    and "connectionAttempts (oniceconnectionstatechange2 p (set_ice p Ice_disconnected s)) =
           connectionAttempts s"
    and "connectionState (oniceconnectionstatechange2 p (set_ice p Ice_disconnected s)) =
           connectionState s"
    and "requests (oniceconnectionstatechange2 p (set_ice p Ice_disconnected s)) = requests s"
    and "pcRef (oniceconnectionstatechange2 p (set_ice p Ice_disconnected s)) = pcRef s"
    and "nextPc (oniceconnectionstatechange2 p (set_ice p Ice_disconnected s)) = nextPc s"
proof -
  let ?w = "console_warn msg_ice_disconnected2 (set_ice p Ice_disconnected s)"
  have h: "oniceconnectionstatechange2 p (set_ice p Ice_disconnected s) =
             schedule (Grace p) 5000 (clear_pending ?w)"
    by (simp add: oniceconnectionstatechange2_def set_ice_def console_warn_def)
  have ok: "timers_ok ?w" using assms by simp
  have f: "nextTimer (clear_pending ?w) = nextTimer s"
    "connectionAttempts (clear_pending ?w) = connectionAttempts s"
    "connectionState (clear_pending ?w) = connectionState s"
    "requests (clear_pending ?w) = requests s"
    "pcRef (clear_pending ?w) = pcRef s"
    "nextPc (clear_pending ?w) = nextPc s"
    by (simp_all add: clear_pending_def clearTimeout_def console_warn_def set_ice_def
          split: option.splits)
  show "timers (oniceconnectionstatechange2 p (set_ice p Ice_disconnected s)) =
           [\<lparr>tid = nextTimer s, delay = 5000, action = Grace p\<rparr>]"
    by (simp add: h timers_schedule timers_clear_pending [OF ok] f)
  show "reconnectTimeoutRef (oniceconnectionstatechange2 p (set_ice p Ice_disconnected s)) =
           Some (nextTimer s)"
    by (simp add: h timers_schedule f)
  show "nextTimer (oniceconnectionstatechange2 p (set_ice p Ice_disconnected s)) = Suc (nextTimer s)"
    "connectionAttempts (oniceconnectionstatechange2 p (set_ice p Ice_disconnected s)) =
           connectionAttempts s"
    "connectionState (oniceconnectionstatechange2 p (set_ice p Ice_disconnected s)) =
           connectionState s"
    "requests (oniceconnectionstatechange2 p (set_ice p Ice_disconnected s)) = requests s"
    "pcRef (oniceconnectionstatechange2 p (set_ice p Ice_disconnected s)) = pcRef s"
    "nextPc (oniceconnectionstatechange2 p (set_ice p Ice_disconnected s)) = nextPc s"
    using f by (simp_all add: h schedule_def setTimeout_def)
qed

lemma timers_ok_notified1:
  "timers_ok s \<Longrightarrow> timers_ok (oniceconnectionstatechange1 p (set_ice p st s))"
  by (simp add: timers_ok_onice1)

lemma timers_ok_notified2:
  "timers_ok s \<Longrightarrow> timers_ok (oniceconnectionstatechange2 p (set_ice p st s))"
  by (simp add: timers_ok_onice2)

lemma grace_escalates1:
  "(grace_timeout1 p v = attemptReconnect1 v) =
     (iceConnectionState (pcs v p) = Ice_disconnected \<or> iceConnectionState (pcs v p) = Ice_failed)"
  using attemptReconnect1_changes [of v] by (auto simp: grace_timeout1_def)

lemma grace_escalates2:
  "(grace_timeout2 p v = attemptReconnect2 v) =
     (iceConnectionState (pcs v p) = Ice_disconnected \<or> iceConnectionState (pcs v p) = Ice_failed)"
  using attemptReconnect2_changes [of v] by (auto simp: grace_timeout2_def)

lemma grace_idle1:
  "(grace_timeout1 p v = v) =
     (\<not> (iceConnectionState (pcs v p) = Ice_disconnected \<or> iceConnectionState (pcs v p) = Ice_failed))"
  using attemptReconnect1_changes [of v] by (auto simp: grace_timeout1_def)

lemma grace_idle2:
  "(grace_timeout2 p v = v) =
     (\<not> (iceConnectionState (pcs v p) = Ice_disconnected \<or> iceConnectionState (pcs v p) = Ice_failed))"
  using attemptReconnect2_changes [of v] by (auto simp: grace_timeout2_def)

lemma onice1_recovered:
  assumes "st = Ice_connected \<or> st = Ice_completed"
  shows "oniceconnectionstatechange1 p (set_ice p st s) = (set_ice p st s)\<lparr>connectionAttempts := 0\<rparr>"
  using assms by (auto simp: oniceconnectionstatechange1_def set_ice_def)

lemma onice2_recovered:
  assumes "st = Ice_connected \<or> st = Ice_completed"
  shows "oniceconnectionstatechange2 p (set_ice p st s) =
           (set_ice p st s)\<lparr>connectionState := \<lparr>status = Connected, error = None\<rparr>,
                            connectionAttempts := 0\<rparr>"
  using assms by (auto simp: oniceconnectionstatechange2_def set_ice_def setConnectionState_def)

lemma pending_single:
  "timers_ok s \<Longrightarrow> pending i s = Some t \<Longrightarrow> timers (clearTimeout i s) = []"
  by (drule timers_ok_cases, elim disjE exE conjE)
     (auto simp: pending_def clearTimeout_def split: if_splits)

lemma disconnect1_released: "disconnect1 s = released s"
  by (simp add: disconnect1_def released_def Let_def cancel_reconnect_def clearTimeout_def
        close_dcRef_def close_pcRef_def stop_localStream_def remove_audioElement_def
        dc_close_def pc_close_def setConnectionState_def split: option.splits)

lemma disconnect2_released: "disconnect2 s = (released s)\<lparr>isSessionStarted := False\<rparr>"
  by (simp add: disconnect2_def released_def Let_def cancel_reconnect_def clearTimeout_def
        close_dcRef_def close_pcRef_def stop_localStream_def remove_audioElement_def
        dc_close_def pc_close_def setConnectionState_def split: option.splits)

lemma released_idem: "released (released s) = released s"
  by (simp add: released_def)

lemma released_idem2:
  "released ((released s)\<lparr>isSessionStarted := False\<rparr>) = released s\<lparr>isSessionStarted := False\<rparr>"
  by (simp add: released_def)


lemma handle_released_released: "handle_released s (released s)"
  by (simp add: handle_released_def released_def list_all_iff split: option.splits)

lemma handle_released_started:
  "handle_released s (s'\<lparr>isSessionStarted := b\<rparr>) = handle_released s s'"
  by (simp add: handle_released_def cong: option.case_cong)

lemma nothing_live_released: "all_owned s \<Longrightarrow> nothing_live (released s)"
  by (auto simp: all_owned_def nothing_live_def released_def list_all_iff split: option.splits)

lemma nothing_live_started: "nothing_live (s\<lparr>isSessionStarted := b\<rparr>) = nothing_live s"
  by (simp add: nothing_live_def)

lemma timer_fire_none:
  "timers s = [] \<Longrightarrow> timer_fire1 i e s = s \<and> timer_fire2 i e s = s"
  by (simp add: timer_fire1_def timer_fire2_def pending_def)


lemma status_disconnect:
  "connectionState (disconnect1 s) = \<lparr>status = Disconnected, error = None\<rparr>"
  "connectionState (disconnect2 s) = \<lparr>status = Disconnected, error = None\<rparr>"
  by (simp_all add: disconnect1_def disconnect2_def Let_def setConnectionState_def)


section \<open>Bounded retries\<close>

text \<open>
  What a call of \<^verbatim>\<open>attemptReconnect\<close> does, in every state a run of the hook can reach.  With
  \<^verbatim>\<open>connectionAttempts\<close> at \<^verbatim>\<open>maxReconnectAttempts\<close> (3) or above it sets the status to
  \<^verbatim>\<open>error\<close> with the message of exhausted retries and leaves the counter and the pending
  timeouts as they are.  With the counter below 3 it adds one to the counter, leaves the
  status alone, and afterwards exactly one timeout is pending, the reconnect it has just
  scheduled.
\<close>

lemma attemptReconnect_cases:
  "(maxReconnectAttempts \<le> connectionAttempts (run1 sf pf evs init) \<longrightarrow>
      connectionState (attemptReconnect1 (run1 sf pf evs init)) =
        \<lparr>status = Error, error = Some msg_exhausted\<rparr> \<and>
      timers (attemptReconnect1 (run1 sf pf evs init)) = timers (run1 sf pf evs init) \<and>
      connectionAttempts (attemptReconnect1 (run1 sf pf evs init)) =
        connectionAttempts (run1 sf pf evs init)) \<and>
   (connectionAttempts (run1 sf pf evs init) < maxReconnectAttempts \<longrightarrow>
      connectionAttempts (attemptReconnect1 (run1 sf pf evs init)) =
        connectionAttempts (run1 sf pf evs init) + 1 \<and>
      timers (attemptReconnect1 (run1 sf pf evs init)) =
        [\<lparr>tid = nextTimer (run1 sf pf evs init),
          delay = 2000 * (connectionAttempts (run1 sf pf evs init) + 1), action = Reconnect\<rparr>] \<and>
      connectionState (attemptReconnect1 (run1 sf pf evs init)) =
        connectionState (run1 sf pf evs init)) \<and>
   (maxReconnectAttempts \<le> connectionAttempts (run2 sf pf evs init) \<longrightarrow>
      connectionState (attemptReconnect2 (run2 sf pf evs init)) =
        \<lparr>status = Error, error = Some msg_exhausted\<rparr> \<and>
      timers (attemptReconnect2 (run2 sf pf evs init)) = timers (run2 sf pf evs init) \<and>
      connectionAttempts (attemptReconnect2 (run2 sf pf evs init)) =
        connectionAttempts (run2 sf pf evs init)) \<and>
   (connectionAttempts (run2 sf pf evs init) < maxReconnectAttempts \<longrightarrow>
      connectionAttempts (attemptReconnect2 (run2 sf pf evs init)) =
        connectionAttempts (run2 sf pf evs init) + 1 \<and>
      timers (attemptReconnect2 (run2 sf pf evs init)) =
        [\<lparr>tid = nextTimer (run2 sf pf evs init),
          delay = 2000 * (connectionAttempts (run2 sf pf evs init) + 1), action = Reconnect\<rparr>] \<and>
      connectionState (attemptReconnect2 (run2 sf pf evs init)) =
        connectionState (run2 sf pf evs init))"
proof -
  have a: "timers (clear_pending (run1 sf pf evs init)) = []"
    by (rule timers_clear_pending [OF reachable1_ok])
  have b: "timers (clear_pending (run2 sf pf evs init)) = []"
    by (rule timers_clear_pending [OF reachable2_ok])
  show ?thesis
    by (simp add: attemptReconnect1_exhausted attemptReconnect2_exhausted
          attemptReconnect1_schedules attemptReconnect2_schedules a b)
qed

text \<open>
  Claim C1 at a failing input.  The branch of \<^verbatim>\<open>attemptReconnect\<close> that gives up sets the
  status and returns: unlike the other branch, and unlike \<^verbatim>\<open>disconnect\<close>, it does not clear
  the timeout \<^verbatim>\<open>reconnectTimeoutRef\<close> holds.  After the run \<open>exhausted1\<close> of the first variant
  (connect, then ICE failed four times on the same connection) the status is \<^verbatim>\<open>error\<close> with
  the message of exhausted retries and the counter is 3, but the reconnect scheduled by
  the third failure is still pending; when it fires, \<^verbatim>\<open>connect\<close> runs: the status is
  \<^verbatim>\<open>connecting\<close>, a second offer has been posted, a second peer connection is live and the
  counter is back at 0.  The same in the second variant after four failing calls of
  \<^verbatim>\<open>connect\<close>.
\<close>

theorem exhausted_error_not_terminal:
  "connectionState (run1 stringify0 parse0 exhausted1 init) =
     \<lparr>status = Error, error = Some msg_exhausted\<rparr> \<and>
   connectionAttempts (run1 stringify0 parse0 exhausted1 init) = 3 \<and>
   timers (run1 stringify0 parse0 exhausted1 init) =
     [\<lparr>tid = 3, delay = 6000, action = Reconnect\<rparr>] \<and>
   connectionState (run1 stringify0 parse0 (exhausted1 @ [Timer_fired 3 ok_env]) init) =
     \<lparr>status = Connecting, error = None\<rparr> \<and>
   requests (run1 stringify0 parse0 (exhausted1 @ [Timer_fired 3 ok_env]) init) =
     [''v=0'', ''v=0''] \<and>
   live_pc 1 (run1 stringify0 parse0 (exhausted1 @ [Timer_fired 3 ok_env]) init) \<and>
   connectionAttempts (run1 stringify0 parse0 (exhausted1 @ [Timer_fired 3 ok_env]) init) = 0 \<and>
   connectionState (run2 stringify0 parse0 exhausted2 init) =
     \<lparr>status = Error, error = Some msg_exhausted\<rparr> \<and>
   connectionAttempts (run2 stringify0 parse0 exhausted2 init) = 3 \<and>
   timers (run2 stringify0 parse0 exhausted2 init) =
     [\<lparr>tid = 3, delay = 6000, action = Reconnect\<rparr>] \<and>
   connectionState (run2 stringify0 parse0 (exhausted2 @ [Timer_fired 3 ok_env]) init) =
     \<lparr>status = Connecting, error = None\<rparr> \<and>
   requests (run2 stringify0 parse0 (exhausted2 @ [Timer_fired 3 ok_env]) init) = [''v=0''] \<and>
   live_pc 0 (run2 stringify0 parse0 (exhausted2 @ [Timer_fired 3 ok_env]) init) \<and>
   connectionAttempts (run2 stringify0 parse0 (exhausted2 @ [Timer_fired 3 ok_env]) init) = 0"
  by (simp add: exhausted1_def exhausted2_def three_failures_def all_defs string_of_nat.simps)

text \<open>
  Claim C7.  For an attempt number \<open>n\<close> from 1 to \<^verbatim>\<open>maxReconnectAttempts\<close>, that is when
  \<^verbatim>\<open>attemptReconnect\<close> is called with the counter at \<open>n - 1\<close>, the timeout it schedules has
  the delay \<open>2000 * n\<close> milliseconds, its action is the reconnect, and its handle is the one
  stored in \<^verbatim>\<open>reconnectTimeoutRef\<close>.  Both variants.
\<close>

theorem backoff_delay_linear:
  "1 \<le> n \<Longrightarrow> n \<le> maxReconnectAttempts \<Longrightarrow> connectionAttempts s = n - 1 \<Longrightarrow>
     last (timers (attemptReconnect1 s)) =
       \<lparr>tid = nextTimer s, delay = 2000 * n, action = Reconnect\<rparr> \<and>
     reconnectTimeoutRef (attemptReconnect1 s) = Some (nextTimer s) \<and>
     connectionAttempts (attemptReconnect1 s) = n \<and>
     last (timers (attemptReconnect2 s)) =
       \<lparr>tid = nextTimer s, delay = 2000 * n, action = Reconnect\<rparr> \<and>
     reconnectTimeoutRef (attemptReconnect2 s) = Some (nextTimer s) \<and>
     connectionAttempts (attemptReconnect2 s) = n"
proof -
  assume n: "1 \<le> n" "n \<le> maxReconnectAttempts" and s: "connectionAttempts s = n - 1"
  then have lt: "connectionAttempts s < maxReconnectAttempts" by simp
  have eq: "connectionAttempts s + 1 = n" using n s by simp
  show ?thesis
    using attemptReconnect1_schedules(1-3) [OF lt] attemptReconnect2_schedules(1-3) [OF lt] eq
    by simp
qed

theorem backoff_delay_linear_witness:
  "connectionAttempts (run1 stringify0 parse0 connected init) = 1 - 1 \<and>
   last (timers (attemptReconnect1 (run1 stringify0 parse0 connected init))) =
     \<lparr>tid = 1, delay = 2000, action = Reconnect\<rparr> \<and>
   connectionAttempts (run1 stringify0 parse0 one_failure init) = 2 - 1 \<and>
   last (timers (attemptReconnect1 (run1 stringify0 parse0 one_failure init))) =
     \<lparr>tid = 2, delay = 4000, action = Reconnect\<rparr> \<and>
   connectionAttempts (run2 stringify0 parse0 outage2 init) = 3 - 1 \<and>
   last (timers (attemptReconnect2 (run2 stringify0 parse0 outage2 init))) =
     \<lparr>tid = 3, delay = 6000, action = Reconnect\<rparr>"
proof -
  have a: "connectionAttempts (run1 stringify0 parse0 connected init) = 0"
    "nextTimer (run1 stringify0 parse0 connected init) = 1"
    by (simp_all add: connected_def all_defs)
  have b: "connectionAttempts (run1 stringify0 parse0 one_failure init) = 1"
    "nextTimer (run1 stringify0 parse0 one_failure init) = 2"
    by (simp_all add: one_failure_def connected_def all_defs)
  have c: "connectionAttempts (run2 stringify0 parse0 outage2 init) = 2"
    "nextTimer (run2 stringify0 parse0 outage2 init) = 3"
    by (simp_all add: outage2_def all_defs string_of_nat.simps)
  show ?thesis
    using backoff_delay_linear [of 1 "run1 stringify0 parse0 connected init"]
      backoff_delay_linear [of 2 "run1 stringify0 parse0 one_failure init"]
      backoff_delay_linear [of 3 "run2 stringify0 parse0 outage2 init"] a b c
    by simp
qed

section \<open>The retry budget after a disconnect\<close>













section \<open>Outbound events\<close>

text \<open>
  Claim C9, as the code has it.  The claim says that for every event \<^verbatim>\<open>sendEvent\<close> writes
  the serialized event to a channel that is open.  Where \<^verbatim>\<open>JSON.stringify\<close> throws (the event
  \<open>counted\<close> holds a BigInt) or \<^verbatim>\<open>send\<close> throws (the text of \<open>oversized\<close> is longer than the
  transport takes), the call on an open channel throws and nothing is written: there is no
  \<^verbatim>\<open>try\<close> in \<^verbatim>\<open>sendEvent\<close>.
\<close>

theorem sendEvent_open_throws_counterexample:
  "dcRef (run1 stringify0 parse0 connected init) = Some 0 \<and>
   readyState (dcs (run1 stringify0 parse0 connected init) 0) = Dc_open \<and>
   sendEvent stringify0 counted (run1 stringify0 parse0 connected init) = Inl ''TypeError'' \<and>
   sendEvent stringify0 oversized (run1 stringify0 parse0 connected init) = Inl ''TypeError'' \<and>
   sent (dcs (run1 stringify0 parse0 (connected @ [Call_sendEvent counted]) init) 0) = [] \<and>
   sent (dcs (run1 stringify0 parse0 (connected @ [Call_sendEvent oversized]) init) 0) = []"
  by (simp add: connected_def counted_def oversized_def all_defs)

text \<open>
  Claim C9, amended.  For every event and every state: with the data channel of \<^verbatim>\<open>dcRef\<close>
  open, \<^verbatim>\<open>sendEvent(event)\<close> serializes the event and, when \<^verbatim>\<open>JSON.stringify\<close> and \<^verbatim>\<open>send\<close> both
  return, has appended the text to what the channel has sent and changed nothing else;
  when either throws, the call throws.  With no channel, or a channel in another state,
  the event is not even serialized: the call adds one warning to the console, changes
  nothing else, keeps the event nowhere, and returns.
\<close>

theorem sendEvent_writes_or_drops:
  "(\<forall>d m. dcRef s = Some d \<and> readyState (dcs s d) = Dc_open \<and> sf ev = Some m \<and>
          send_rejects s m = None \<longrightarrow>
       sendEvent sf ev s =
         Inr (s\<lparr>dcs := (dcs s)(d := (dcs s d)\<lparr>sent := sent (dcs s d) @ [m]\<rparr>)\<rparr>)) \<and>
   (\<forall>d. dcRef s = Some d \<and> readyState (dcs s d) = Dc_open \<and>
        (sf ev = None \<or> (\<exists>m x. sf ev = Some m \<and> send_rejects s m = Some x)) \<longrightarrow>
       (\<exists>x. sendEvent sf ev s = Inl x)) \<and>
   ((\<forall>d. dcRef s = Some d \<longrightarrow> readyState (dcs s d) \<noteq> Dc_open) \<longrightarrow>
       sendEvent sf ev s = Inr (s\<lparr>console := console s @ [(Warn, msg_not_ready)]\<rparr>))"
  by (auto simp: sendEvent_def dc_send_def console_warn_def split: option.splits)

theorem sendEvent_writes_or_drops_witness:
  "dcRef (run1 stringify0 parse0 connected init) = Some 0 \<and>
   readyState (dcs (run1 stringify0 parse0 connected init) 0) = Dc_open \<and>
   stringify0 hello = Some ''response.create'' \<and>
   send_rejects (run1 stringify0 parse0 connected init) ''response.create'' = None \<and>
   (\<exists>s'. sendEvent stringify0 hello (run1 stringify0 parse0 connected init) = Inr s' \<and>
      sent (dcs s' 0) = [''response.create''] \<and> console s' = []) \<and>
   stringify0 counted = None \<and>
   (\<exists>x. sendEvent stringify0 counted (run1 stringify0 parse0 connected init) = Inl x) \<and>
   dcRef init = None \<and>
   sendEvent stringify0 counted init = Inr (init\<lparr>console := [(Warn, msg_not_ready)]\<rparr>) \<and>
   readyState (dcs (run1 stringify0 parse0 [Call_connect [] False ok_env] init) 0) = Dc_connecting \<and>
   (\<exists>s'. sendEvent stringify0 hello (run1 stringify0 parse0 [Call_connect [] False ok_env] init) =
            Inr s' \<and>
      sent (dcs s' 0) = [] \<and> console s' = [(Warn, msg_not_ready)])"
proof -
  have a: "dcRef (run1 stringify0 parse0 connected init) = Some 0"
    "readyState (dcs (run1 stringify0 parse0 connected init) 0) = Dc_open"
    "sent (dcs (run1 stringify0 parse0 connected init) 0) = []"
    "console (run1 stringify0 parse0 connected init) = []"
    "send_rejects (run1 stringify0 parse0 connected init) ''response.create'' = None"
    by (simp_all add: connected_def all_defs)
  have b: "dcRef init = None" "console init = []" by (simp_all add: init_def)
  have c: "dcRef (run1 stringify0 parse0 [Call_connect [] False ok_env] init) = Some 0"
    "readyState (dcs (run1 stringify0 parse0 [Call_connect [] False ok_env] init) 0) = Dc_connecting"
    "sent (dcs (run1 stringify0 parse0 [Call_connect [] False ok_env] init) 0) = []"
    "console (run1 stringify0 parse0 [Call_connect [] False ok_env] init) = []"
    by (simp_all add: all_defs)
  have d: "stringify0 hello = Some ''response.create''" "stringify0 counted = None"
    by (simp_all add: stringify0_def is_bigint_def hello_def counted_def)
  show ?thesis
    using sendEvent_writes_or_drops [of "run1 stringify0 parse0 connected init" stringify0 hello]
      sendEvent_writes_or_drops [of "run1 stringify0 parse0 connected init" stringify0 counted]
      sendEvent_writes_or_drops [of init stringify0 counted]
      sendEvent_writes_or_drops
        [of "run1 stringify0 parse0 [Call_connect [] False ok_env] init" stringify0 hello]
      a b c d
    by auto
qed

section \<open>The grace period\<close>

text \<open>
  Claim C2.  In every state a run of the hook can reach, a notification of ICE state
  \<^verbatim>\<open>disconnected\<close> on a connection \<open>p\<close> starts no reconnection: the counter, the status, the
  requests made and the peer connection are as before.  Afterwards exactly one timeout is
  pending, of 5000 ms, whose callback is the grace check of \<open>p\<close>; whatever was pending has
  been cancelled, so a second notification leaves one pending timeout again, not two.
  When a pending grace timeout of \<open>p\<close> fires, in any state, it calls \<^verbatim>\<open>attemptReconnect\<close> if
  and only if the ICE state of \<open>p\<close> is \<^verbatim>\<open>disconnected\<close> or \<^verbatim>\<open>failed\<close>, and does nothing
  otherwise.  Both variants.
\<close>

theorem ice_disconnected_grace_timer:
  "(let s = run1 sf pf evs init; s' = ice_disconnected1 p s; s'' = ice_disconnected1 p s' in
      connectionAttempts s' = connectionAttempts s \<and> connectionState s' = connectionState s \<and>
      requests s' = requests s \<and> pcRef s' = pcRef s \<and> nextPc s' = nextPc s \<and>
      timers s' = [\<lparr>tid = nextTimer s, delay = 5000, action = Grace p\<rparr>] \<and>
      reconnectTimeoutRef s' = Some (nextTimer s) \<and>
      timers s'' = [\<lparr>tid = Suc (nextTimer s), delay = 5000, action = Grace p\<rparr>] \<and>
      connectionAttempts s'' = connectionAttempts s \<and> requests s'' = requests s) \<and>
   (let s = run2 sf pf evs init; s' = ice_disconnected2 p s; s'' = ice_disconnected2 p s' in
      connectionAttempts s' = connectionAttempts s \<and> connectionState s' = connectionState s \<and>
      requests s' = requests s \<and> pcRef s' = pcRef s \<and> nextPc s' = nextPc s \<and>
      timers s' = [\<lparr>tid = nextTimer s, delay = 5000, action = Grace p\<rparr>] \<and>
      reconnectTimeoutRef s' = Some (nextTimer s) \<and>
      timers s'' = [\<lparr>tid = Suc (nextTimer s), delay = 5000, action = Grace p\<rparr>] \<and>
      connectionAttempts s'' = connectionAttempts s \<and> requests s'' = requests s) \<and>
   (live_pc p v \<and> has_ice_handler (pcs v p) \<longrightarrow>
      step1 sf pf (Ice_change p Ice_disconnected) v = ice_disconnected1 p v \<and>
      step2 sf pf (Ice_change p Ice_disconnected) v = ice_disconnected2 p v) \<and>
   (pending i u = Some t \<and> action t = Grace p \<longrightarrow>
      (timer_fire1 i e u = attemptReconnect1 (clearTimeout i u)) = still_down p u \<and>
      (timer_fire1 i e u = clearTimeout i u) = (\<not> still_down p u) \<and>
      (timer_fire2 i e u = attemptReconnect2 (clearTimeout i u)) = still_down p u \<and>
      (timer_fire2 i e u = clearTimeout i u) = (\<not> still_down p u))"
proof -
  let ?s1 = "run1 sf pf evs init"
  let ?s2 = "run2 sf pf evs init"
  have ok1: "timers_ok ?s1" by (rule reachable1_ok)
  have ok2: "timers_ok ?s2" by (rule reachable2_ok)
  have ok1': "timers_ok (oniceconnectionstatechange1 p (set_ice p Ice_disconnected ?s1))"
    by (rule timers_ok_notified1 [OF ok1])
  have ok2': "timers_ok (oniceconnectionstatechange2 p (set_ice p Ice_disconnected ?s2))"
    by (rule timers_ok_notified2 [OF ok2])
  have a: "let s = ?s1; s' = ice_disconnected1 p s; s'' = ice_disconnected1 p s' in
      connectionAttempts s' = connectionAttempts s \<and> connectionState s' = connectionState s \<and>
      requests s' = requests s \<and> pcRef s' = pcRef s \<and> nextPc s' = nextPc s \<and>
      timers s' = [\<lparr>tid = nextTimer s, delay = 5000, action = Grace p\<rparr>] \<and>
      reconnectTimeoutRef s' = Some (nextTimer s) \<and>
      timers s'' = [\<lparr>tid = Suc (nextTimer s), delay = 5000, action = Grace p\<rparr>] \<and>
      connectionAttempts s'' = connectionAttempts s \<and> requests s'' = requests s"
    unfolding Let_def ice_disconnected1_def
    by (simp add: onice1_disconnected [OF ok1] onice1_disconnected [OF ok1'])
  have b: "let s = ?s2; s' = ice_disconnected2 p s; s'' = ice_disconnected2 p s' in
      connectionAttempts s' = connectionAttempts s \<and> connectionState s' = connectionState s \<and>
      requests s' = requests s \<and> pcRef s' = pcRef s \<and> nextPc s' = nextPc s \<and>
      timers s' = [\<lparr>tid = nextTimer s, delay = 5000, action = Grace p\<rparr>] \<and>
      reconnectTimeoutRef s' = Some (nextTimer s) \<and>
      timers s'' = [\<lparr>tid = Suc (nextTimer s), delay = 5000, action = Grace p\<rparr>] \<and>
      connectionAttempts s'' = connectionAttempts s \<and> requests s'' = requests s"
    unfolding Let_def ice_disconnected2_def
    by (simp add: onice2_disconnected [OF ok2] onice2_disconnected [OF ok2'])
  have c: "pending i u = Some t \<and> action t = Grace p \<longrightarrow>
      (timer_fire1 i e u = attemptReconnect1 (clearTimeout i u)) = still_down p u \<and>
      (timer_fire1 i e u = clearTimeout i u) = (\<not> still_down p u) \<and>
      (timer_fire2 i e u = attemptReconnect2 (clearTimeout i u)) = still_down p u \<and>
      (timer_fire2 i e u = clearTimeout i u) = (\<not> still_down p u)"
    using grace_escalates1 [of p "clearTimeout i u"] grace_escalates2 [of p "clearTimeout i u"]
      grace_idle1 [of p "clearTimeout i u"] grace_idle2 [of p "clearTimeout i u"]
    by (auto simp: grace_fire1 grace_fire2 still_down_def)
  have d: "live_pc p v \<and> has_ice_handler (pcs v p) \<longrightarrow>
      step1 sf pf (Ice_change p Ice_disconnected) v = ice_disconnected1 p v \<and>
      step2 sf pf (Ice_change p Ice_disconnected) v = ice_disconnected2 p v"
    by (simp add: ice_event1_def ice_event2_def ice_disconnected1_def ice_disconnected2_def)
  show ?thesis using a b c d by blast
qed

theorem ice_disconnected_grace_timer_witness:
  "timers (run1 stringify0 parse0 blip init) = [\<lparr>tid = 1, delay = 5000, action = Grace 0\<rparr>] \<and>
   timers (ice_disconnected1 0 (run1 stringify0 parse0 blip init)) =
     [\<lparr>tid = 2, delay = 5000, action = Grace 0\<rparr>] \<and>
   live_pc 0 (run1 stringify0 parse0 blip init) \<and>
   has_ice_handler (pcs (run1 stringify0 parse0 blip init) 0) \<and>
   step1 stringify0 parse0 (Ice_change 0 Ice_disconnected) (run1 stringify0 parse0 blip init) =
     ice_disconnected1 0 (run1 stringify0 parse0 blip init) \<and>
   pending 1 (run1 stringify0 parse0 blip init) = Some \<lparr>tid = 1, delay = 5000, action = Grace 0\<rparr> \<and>
   still_down 0 (run1 stringify0 parse0 blip init) \<and>
   timer_fire1 1 ok_env (run1 stringify0 parse0 blip init) =
     attemptReconnect1 (clearTimeout 1 (run1 stringify0 parse0 blip init)) \<and>
   timer_fire1 1 ok_env (run1 stringify0 parse0 blip init) \<noteq>
     clearTimeout 1 (run1 stringify0 parse0 blip init) \<and>
   pending 1 (run2 stringify0 parse0 recovery init) =
     Some \<lparr>tid = 1, delay = 5000, action = Grace 0\<rparr> \<and>
   \<not> still_down 0 (run2 stringify0 parse0 recovery init) \<and>
   timer_fire2 1 ok_env (run2 stringify0 parse0 recovery init) =
     clearTimeout 1 (run2 stringify0 parse0 recovery init)"
proof -
  have a: "timers (run1 stringify0 parse0 blip init) = [\<lparr>tid = 1, delay = 5000, action = Grace 0\<rparr>]"
    "nextTimer (run1 stringify0 parse0 blip init) = 2"
    "iceConnectionState (pcs (run1 stringify0 parse0 blip init) 0) = Ice_disconnected"
    "live_pc 0 (run1 stringify0 parse0 blip init)"
    "has_ice_handler (pcs (run1 stringify0 parse0 blip init) 0)"
    by (simp_all add: blip_def connected_def all_defs)
  have b: "pending 1 (run1 stringify0 parse0 blip init) =
             Some \<lparr>tid = 1, delay = 5000, action = Grace 0\<rparr>"
    by (simp add: pending_def a)
  have c: "still_down 0 (run1 stringify0 parse0 blip init)" by (simp add: still_down_def a)
  have d: "timers (run2 stringify0 parse0 recovery init) =
             [\<lparr>tid = 1, delay = 5000, action = Grace 0\<rparr>]"
    "iceConnectionState (pcs (run2 stringify0 parse0 recovery init) 0) = Ice_connected"
    by (simp_all add: recovery_def blip_def connected_def all_defs)
  have f: "pending 1 (run2 stringify0 parse0 recovery init) =
             Some \<lparr>tid = 1, delay = 5000, action = Grace 0\<rparr>"
    by (simp add: pending_def d)
  have g: "\<not> still_down 0 (run2 stringify0 parse0 recovery init)" by (simp add: still_down_def d)
  show ?thesis
    using ice_disconnected_grace_timer
      [of stringify0 parse0 blip 0 "run1 stringify0 parse0 blip init" 1
          "run1 stringify0 parse0 blip init" "\<lparr>tid = 1, delay = 5000, action = Grace 0\<rparr>" ok_env]
      ice_disconnected_grace_timer
      [of stringify0 parse0 blip 0 "run1 stringify0 parse0 blip init" 1
          "run2 stringify0 parse0 recovery init" "\<lparr>tid = 1, delay = 5000, action = Grace 0\<rparr>" ok_env]
      a b c d f g
    by (simp add: Let_def attemptReconnect1_changes)
qed

text \<open>
  Claim C3, as the code has it.  The claim says that a recovery of the ICE state to
  \<^verbatim>\<open>connected\<close> or \<^verbatim>\<open>completed\<close> cancels the pending grace timeout.  It does not: the
  handler only resets the counter (the second variant also sets the status to
  \<^verbatim>\<open>connected\<close>), never calls \<^verbatim>\<open>clearTimeout\<close>, and the timeout stays pending.  After the
  run \<open>recovery\<close> (connect, ICE connected, ICE disconnected, ICE connected) the grace
  timeout armed by the disconnection is still there.
\<close>

theorem grace_timer_cancelled_counterexample:
  "timers (run1 stringify0 parse0 recovery init) = [\<lparr>tid = 1, delay = 5000, action = Grace 0\<rparr>] \<and>
   timers (run1 stringify0 parse0 recovery init) \<noteq> [] \<and>
   reconnectTimeoutRef (run1 stringify0 parse0 recovery init) = Some 1 \<and>
   timers (run2 stringify0 parse0 recovery init) = [\<lparr>tid = 1, delay = 5000, action = Grace 0\<rparr>] \<and>
   timers (run2 stringify0 parse0 recovery init) \<noteq> [] \<and>
   reconnectTimeoutRef (run2 stringify0 parse0 recovery init) = Some 1"
  by (simp add: recovery_def blip_def connected_def all_defs)

text \<open>
  Claim C3, amended.  In every state a run can reach in which a grace timeout of the
  connection \<open>p\<close> is pending, a notification of ICE state \<^verbatim>\<open>connected\<close> or \<^verbatim>\<open>completed\<close> on \<open>p\<close>
  resets \<^verbatim>\<open>connectionAttempts\<close> to 0 and leaves the timeout pending.  When that timeout then
  fires it finds the ICE state recovered and only goes away: no timeout is pending
  afterwards, the counter is still 0, no request has been made and the status is
  untouched, so no reconnection attempt is made for that disconnection.  Both variants; in
  the second the notification also sets the status to \<^verbatim>\<open>connected\<close>.
\<close>

theorem ice_recovery_leaves_timer_idle:
  "((st = Ice_connected \<or> st = Ice_completed) \<and>
    pending i (run1 sf pf evs init) = Some t \<and> action t = Grace p \<longrightarrow>
     (let s = run1 sf pf evs init; s' = ice_recovered1 p st s; s'' = timer_fire1 i e s' in
        connectionAttempts s' = 0 \<and> timers s' = timers s \<and> pending i s' = Some t \<and>
        connectionState s' = connectionState s \<and>
        s'' = clearTimeout i s' \<and> timers s'' = [] \<and> connectionAttempts s'' = 0 \<and>
        requests s'' = requests s \<and> connectionState s'' = connectionState s)) \<and>
   ((st = Ice_connected \<or> st = Ice_completed) \<and>
    pending i (run2 sf pf evs init) = Some t \<and> action t = Grace p \<longrightarrow>
     (let s = run2 sf pf evs init; s' = ice_recovered2 p st s; s'' = timer_fire2 i e s' in
        connectionAttempts s' = 0 \<and> timers s' = timers s \<and> pending i s' = Some t \<and>
        connectionState s' = \<lparr>status = Connected, error = None\<rparr> \<and>
        s'' = clearTimeout i s' \<and> timers s'' = [] \<and> connectionAttempts s'' = 0 \<and>
        requests s'' = requests s \<and> connectionState s'' = \<lparr>status = Connected, error = None\<rparr>))"
proof (intro conjI impI; elim conjE)
  assume st: "st = Ice_connected \<or> st = Ice_completed"
    and pe: "pending i (run1 sf pf evs init) = Some t" and ac: "action t = Grace p"
  let ?s = "run1 sf pf evs init"
  let ?s' = "ice_recovered1 p st ?s"
  have ok: "timers_ok ?s" by (rule reachable1_ok)
  have e: "?s' = (set_ice p st ?s)\<lparr>connectionAttempts := 0\<rparr>"
    unfolding ice_recovered1_def by (rule onice1_recovered [OF st])
  have t: "timers ?s' = timers ?s" "connectionAttempts ?s' = 0"
    "connectionState ?s' = connectionState ?s" "requests ?s' = requests ?s"
    "reconnectTimeoutRef ?s' = reconnectTimeoutRef ?s"
    by (simp_all add: e set_ice_def)
  have pe': "pending i ?s' = Some t" using pe by (simp add: pending_def t)
  have ok': "timers_ok ?s'" using ok by (simp add: timers_ok_def t)
  have ice: "iceConnectionState (pcs ?s' p) = st" by (simp add: e set_ice_def)
  have f: "timer_fire1 i e ?s' = clearTimeout i ?s'"
    using st ice by (auto simp: grace_fire1 [OF pe' ac] grace_timeout1_def)
  have g: "timers (clearTimeout i ?s') = []" by (rule pending_single [OF ok' pe'])
  show "let s = ?s; s' = ice_recovered1 p st s; s'' = timer_fire1 i e s' in
        connectionAttempts s' = 0 \<and> timers s' = timers s \<and> pending i s' = Some t \<and>
        connectionState s' = connectionState s \<and>
        s'' = clearTimeout i s' \<and> timers s'' = [] \<and> connectionAttempts s'' = 0 \<and>
        requests s'' = requests s \<and> connectionState s'' = connectionState s"
    unfolding Let_def f using t pe' g by (simp add: clearTimeout_def)
next
  assume st: "st = Ice_connected \<or> st = Ice_completed"
    and pe: "pending i (run2 sf pf evs init) = Some t" and ac: "action t = Grace p"
  let ?s = "run2 sf pf evs init"
  let ?s' = "ice_recovered2 p st ?s"
  have ok: "timers_ok ?s" by (rule reachable2_ok)
  have e: "?s' = (set_ice p st ?s)\<lparr>connectionState := \<lparr>status = Connected, error = None\<rparr>,
                                    connectionAttempts := 0\<rparr>"
    unfolding ice_recovered2_def by (rule onice2_recovered [OF st])
  have t: "timers ?s' = timers ?s" "connectionAttempts ?s' = 0"
    "connectionState ?s' = \<lparr>status = Connected, error = None\<rparr>" "requests ?s' = requests ?s"
    "reconnectTimeoutRef ?s' = reconnectTimeoutRef ?s"
    by (simp_all add: e set_ice_def)
  have pe': "pending i ?s' = Some t" using pe by (simp add: pending_def t)
  have ok': "timers_ok ?s'" using ok by (simp add: timers_ok_def t)
  have ice: "iceConnectionState (pcs ?s' p) = st" by (simp add: e set_ice_def)
  have f: "timer_fire2 i e ?s' = clearTimeout i ?s'"
    using st ice by (auto simp: grace_fire2 [OF pe' ac] grace_timeout2_def)
  have g: "timers (clearTimeout i ?s') = []" by (rule pending_single [OF ok' pe'])
  show "let s = ?s; s' = ice_recovered2 p st s; s'' = timer_fire2 i e s' in
        connectionAttempts s' = 0 \<and> timers s' = timers s \<and> pending i s' = Some t \<and>
        connectionState s' = \<lparr>status = Connected, error = None\<rparr> \<and>
        s'' = clearTimeout i s' \<and> timers s'' = [] \<and> connectionAttempts s'' = 0 \<and>
        requests s'' = requests s \<and> connectionState s'' = \<lparr>status = Connected, error = None\<rparr>"
    unfolding Let_def f using t pe' g by (simp add: clearTimeout_def)
qed

theorem ice_recovery_leaves_timer_idle_witness:
  "pending 1 (run1 stringify0 parse0 blip init) = Some \<lparr>tid = 1, delay = 5000, action = Grace 0\<rparr> \<and>
   ice_recovered1 0 Ice_connected (run1 stringify0 parse0 blip init) =
     run1 stringify0 parse0 recovery init \<and>
   timers (ice_recovered1 0 Ice_connected (run1 stringify0 parse0 blip init)) =
     [\<lparr>tid = 1, delay = 5000, action = Grace 0\<rparr>] \<and>
   connectionAttempts (ice_recovered1 0 Ice_connected (run1 stringify0 parse0 blip init)) = 0 \<and>
   timers (timer_fire1 1 ok_env (ice_recovered1 0 Ice_connected (run1 stringify0 parse0 blip init)))
     = [] \<and>
   requests (timer_fire1 1 ok_env (ice_recovered1 0 Ice_connected (run1 stringify0 parse0 blip init)))
     = [''v=0''] \<and>
   pending 1 (run2 stringify0 parse0 blip init) = Some \<lparr>tid = 1, delay = 5000, action = Grace 0\<rparr> \<and>
   timers (timer_fire2 1 ok_env (ice_recovered2 0 Ice_completed (run2 stringify0 parse0 blip init)))
     = [] \<and>
   connectionAttempts
     (timer_fire2 1 ok_env (ice_recovered2 0 Ice_completed (run2 stringify0 parse0 blip init))) = 0"
proof -
  have a: "timers (run1 stringify0 parse0 blip init) = [\<lparr>tid = 1, delay = 5000, action = Grace 0\<rparr>]"
    "requests (run1 stringify0 parse0 blip init) = [''v=0'']"
    "timers (run2 stringify0 parse0 blip init) = [\<lparr>tid = 1, delay = 5000, action = Grace 0\<rparr>]"
    by (simp_all add: blip_def connected_def all_defs)
  have b: "pending 1 (run1 stringify0 parse0 blip init) =
             Some \<lparr>tid = 1, delay = 5000, action = Grace 0\<rparr>"
    "pending 1 (run2 stringify0 parse0 blip init) =
             Some \<lparr>tid = 1, delay = 5000, action = Grace 0\<rparr>"
    by (simp_all add: pending_def a)
  have c: "ice_recovered1 0 Ice_connected (run1 stringify0 parse0 blip init) =
             run1 stringify0 parse0 recovery init"
    by (simp add: recovery_def blip_def connected_def ice_recovered1_def all_defs)
  show ?thesis
    using ice_recovery_leaves_timer_idle
      [of Ice_connected 1 stringify0 parse0 blip "\<lparr>tid = 1, delay = 5000, action = Grace 0\<rparr>" 0 ok_env]
      ice_recovery_leaves_timer_idle
      [of Ice_completed 1 stringify0 parse0 blip "\<lparr>tid = 1, delay = 5000, action = Grace 0\<rparr>" 0 ok_env]
      a b c
    by (auto simp: Let_def)
qed


section \<open>What disconnect releases\<close>

text \<open>
  What \<^verbatim>\<open>disconnect\<close> does release, in every state a run of the hook can reach: the refs
  of the peer connection, the data channel, the local stream, the audio element and the
  timeout are empty afterwards; the connection and the channel the refs held are closed,
  every track of the stream they held is stopped, the audio element they held is
  removed; no timeout is pending, so that a timeout that fires afterwards finds nothing to
  run; the status is \<^verbatim>\<open>disconnected\<close>; a second call changes nothing.  Where every live
  object of the store was the one its ref held, nothing is live afterwards.
\<close>

lemma disconnect_releases_held_handle:
  "(let s = run1 sf pf evs init; s' = disconnect1 s in
      handle_released s s' \<and> timers s' = [] \<and> timer_fire1 i e s' = s' \<and>
      disconnect1 s' = s' \<and> (all_owned s \<longrightarrow> nothing_live s')) \<and>
   (let s = run2 sf pf evs init; s' = disconnect2 s in
      handle_released s s' \<and> timers s' = [] \<and> timer_fire2 i e s' = s' \<and>
      disconnect2 s' = s' \<and> (all_owned s \<longrightarrow> nothing_live s'))"
proof -
  let ?s1 = "run1 sf pf evs init"
  let ?s2 = "run2 sf pf evs init"
  have t1: "timers (disconnect1 ?s1) = []"
    using timers_disconnect1 [OF reachable1_ok] by simp
  have t2: "timers (disconnect2 ?s2) = []"
    using timers_disconnect2 [OF reachable2_ok] by simp
  have a: "handle_released ?s1 (disconnect1 ?s1)"
    by (simp add: disconnect1_released handle_released_released)
  have b: "handle_released ?s2 (disconnect2 ?s2)"
    by (simp add: disconnect2_released handle_released_started handle_released_released)
  have c: "disconnect1 (disconnect1 ?s1) = disconnect1 ?s1"
    by (simp add: disconnect1_released released_idem)
  have d: "disconnect2 (disconnect2 ?s2) = disconnect2 ?s2"
    by (simp add: disconnect2_released released_idem2)
  have f: "all_owned ?s1 \<longrightarrow> nothing_live (disconnect1 ?s1)"
    by (simp add: disconnect1_released nothing_live_released)
  have g: "all_owned ?s2 \<longrightarrow> nothing_live (disconnect2 ?s2)"
    by (simp add: disconnect2_released nothing_live_started nothing_live_released)
  show ?thesis
    unfolding Let_def using a b c d f g t1 t2 timer_fire_none [OF t1] timer_fire_none [OF t2]
    by simp
qed

text \<open>
  Claim C4 at a failing input.  \<^verbatim>\<open>disconnect\<close> releases what the refs hold, and
  \<^verbatim>\<open>connect\<close> overwrites the refs without releasing what they held.  After the run
  \<open>reconnected\<close> (connect, channel open, ICE connected, ICE failed, the backoff timeout
  fires and \<^verbatim>\<open>connect\<close> succeeds) a call of \<^verbatim>\<open>disconnect\<close> leaves every ref empty, no
  timeout pending and the status \<^verbatim>\<open>disconnected\<close>, and stops the track of the second
  stream; but the capture track of the first stream is still live and the first audio
  element is not removed.  In the first variant, where \<^verbatim>\<open>attemptReconnect\<close> closes nothing,
  the first peer connection and its data channel are still open as well.
\<close>

theorem disconnect_after_reconnect_leaves_capture:
  "pcRef (run2 stringify0 parse0 (reconnected @ [Call_disconnect]) init) = None \<and>
   dcRef (run2 stringify0 parse0 (reconnected @ [Call_disconnect]) init) = None \<and>
   localStreamRef (run2 stringify0 parse0 (reconnected @ [Call_disconnect]) init) = None \<and>
   audioElementRef (run2 stringify0 parse0 (reconnected @ [Call_disconnect]) init) = None \<and>
   timers (run2 stringify0 parse0 (reconnected @ [Call_disconnect]) init) = [] \<and>
   connectionState (run2 stringify0 parse0 (reconnected @ [Call_disconnect]) init) =
     \<lparr>status = Disconnected, error = None\<rparr> \<and>
   nextStream (run2 stringify0 parse0 (reconnected @ [Call_disconnect]) init) = 2 \<and>
   streams (run2 stringify0 parse0 (reconnected @ [Call_disconnect]) init) 1 = [True] \<and>
   streams (run2 stringify0 parse0 (reconnected @ [Call_disconnect]) init) 0 = [False] \<and>
   removed (audios (run2 stringify0 parse0 (reconnected @ [Call_disconnect]) init) 0) = False \<and>
   pcRef (run1 stringify0 parse0 (reconnected @ [Call_disconnect]) init) = None \<and>
   streams (run1 stringify0 parse0 (reconnected @ [Call_disconnect]) init) 0 = [False] \<and>
   live_pc 0 (run1 stringify0 parse0 (reconnected @ [Call_disconnect]) init) \<and>
   readyState (dcs (run1 stringify0 parse0 (reconnected @ [Call_disconnect]) init) 0) = Dc_open \<and>
   live_pc 1 (run1 stringify0 parse0 (reconnected @ [Call_disconnect]) init) = False"
  by (simp add: reconnected_def one_failure_def connected_def all_defs)

section \<open>Calls of connect on a session that is already open\<close>

text \<open>
  Claim C5 at a failing input.  The first variant of \<^verbatim>\<open>connect\<close> has no guard.  Called a
  second time while the status is \<^verbatim>\<open>connecting\<close>, or after the status has become
  \<^verbatim>\<open>connected\<close>, it creates a second peer connection and posts a second offer; the ref
  now holds the second connection, the first is still open, and \<^verbatim>\<open>disconnect\<close> does not reach
  it: the first connection and the first capture track stay live.  The second variant, called
  with \<^verbatim>\<open>isSessionStarted\<close> true on a connected session, makes no handshake but sets the
  status back to \<^verbatim>\<open>connecting\<close>.
\<close>

theorem connect_twice_second_handshake:
  "status (connectionState (run1 stringify0 parse0 [Call_connect [] False ok_env] init)) =
     Connecting \<and>
   live_pc 0 (run1 stringify0 parse0 twice init) \<and>
   live_pc 1 (run1 stringify0 parse0 twice init) \<and>
   pcRef (run1 stringify0 parse0 twice init) = Some 1 \<and>
   requests (run1 stringify0 parse0 twice init) = [''v=0'', ''v=0''] \<and>
   live_pc 0 (disconnect1 (run1 stringify0 parse0 twice init)) \<and>
   streams (disconnect1 (run1 stringify0 parse0 twice init)) 0 = [False] \<and>
   status (connectionState (run1 stringify0 parse0 established init)) = Connected \<and>
   live_pc 0 (connect1 [] ok_env (run1 stringify0 parse0 established init)) \<and>
   live_pc 1 (connect1 [] ok_env (run1 stringify0 parse0 established init)) \<and>
   requests (connect1 [] ok_env (run1 stringify0 parse0 established init)) = [''v=0'', ''v=0''] \<and>
   status (connectionState (run2 stringify0 parse0 connected init)) = Connected \<and>
   isSessionStarted (run2 stringify0 parse0 connected init) \<and>
   connect2 [] True ok_env (run2 stringify0 parse0 connected init) =
     (run2 stringify0 parse0 connected init)
       \<lparr>connectionState := \<lparr>status = Connecting, error = None\<rparr>\<rparr>"
  by (simp add: twice_def established_def connected_def all_defs)

text \<open>The guard of the second variant: a call whose closure holds \<^verbatim>\<open>isSessionStarted\<close> true
  does nothing but set the status.\<close>

lemma connect2_started:
  "connect2 ls True e s = s\<lparr>connectionState := \<lparr>status = Connecting, error = None\<rparr>\<rparr>"
  by (simp add: connect2_def connect2_try_def setConnectionState_def)

section \<open>The status while retrying\<close>

text \<open>The first variant of \<^verbatim>\<open>connect\<close> never ends with the status \<^verbatim>\<open>error\<close>: where its
  \<^verbatim>\<open>catch\<close> block sets it, the call of \<^verbatim>\<open>disconnect\<close> that follows replaces it.\<close>

lemma connect1_try_state:
  "connect1_try ls e s = (Normal, s') \<Longrightarrow>
     connectionState s' = \<lparr>status = Connecting, error = None\<rparr>"
  by (auto simp: connect1_try_def signaling1_def Let_def frame_defs
        split: outcome.splits if_splits)

lemma connect1_status:
  "status (connectionState (connect1 ls e s)) = Connecting \<or>
   status (connectionState (connect1 ls e s)) = Disconnected"
proof (cases "connect1_try ls e s")
  case (Pair c s')
  show ?thesis
  proof (cases c)
    case Normal
    then show ?thesis using Pair connect1_try_state [of ls e s s'] by (simp add: connect1_def)
  next
    case (Threw x)
    then show ?thesis using Pair by (simp add: connect1_def Let_def status_disconnect)
  qed
qed

text \<open>
  Claim C6 at a failing input.  The second variant of \<^verbatim>\<open>connect\<close> sets the status to
  \<^verbatim>\<open>error\<close> in its \<^verbatim>\<open>catch\<close> block on every failure, before it calls \<^verbatim>\<open>attemptReconnect\<close>.
  With the signaling endpoint answering 500, the first call ends with the status \<^verbatim>\<open>error\<close>,
  the counter at 1 and a reconnect scheduled; when that timeout fires the retry fails in
  the same way and ends with \<^verbatim>\<open>error\<close> again, the counter at 2 and the next reconnect
  scheduled.  The first variant guards the assignment with \<^verbatim>\<open>connectionAttempts.current === 0\<close>:
  its failed retry ends with the status \<^verbatim>\<open>disconnected\<close>.
\<close>

theorem failed_retry_shows_error:
  "connectionState (run2 stringify0 parse0 outage1 init) =
     \<lparr>status = Error, error = Some ''Failed to get session token: 500''\<rparr> \<and>
   connectionAttempts (run2 stringify0 parse0 outage1 init) = 1 \<and>
   timers (run2 stringify0 parse0 outage1 init) = [\<lparr>tid = 1, delay = 2000, action = Reconnect\<rparr>] \<and>
   connectionState (run2 stringify0 parse0 outage2 init) =
     \<lparr>status = Error, error = Some ''Failed to get session token: 500''\<rparr> \<and>
   connectionAttempts (run2 stringify0 parse0 outage2 init) = 2 \<and>
   timers (run2 stringify0 parse0 outage2 init) = [\<lparr>tid = 2, delay = 4000, action = Reconnect\<rparr>] \<and>
   connectionAttempts (run1 stringify0 parse0 one_failure init) = 1 \<and>
   connectionState (run1 stringify0 parse0 (one_failure @ [Timer_fired 1 down_env]) init) =
     \<lparr>status = Disconnected, error = None\<rparr>"
  by (simp add: outage1_def outage2_def one_failure_def connected_def all_defs
        string_of_nat.simps msg_token_failed_def)

section \<open>Delivery of inbound events\<close>

text \<open>The first variant calls every listener of the list its handler holds, in order,
  whether or not one of them throws.\<close>

lemma notify1_delivers_all:
  "delivered (notify1 ls ev s) = delivered s @ map (\<lambda>l. (lid l, ev)) ls"
  by (induction ls arbitrary: s) (simp_all add: invoke_def console_error_def)

text \<open>
  Claim C8 at a failing input.  The message handler of the second variant calls the
  listeners with no \<^verbatim>\<open>try\<close> around the call.  With the listeners \<open>thrower\<close> and \<open>quiet\<close>
  registered in this order, a message reaches \<open>thrower\<close>, whose exception leaves the
  handler: \<open>quiet\<close> is never called and nothing is logged.  On the same run the first
  variant calls both and logs the error.
\<close>

theorem throwing_listener_blocks_delivery:
  "onmessage2 parse0 [thrower, quiet] ''session.created'' init =
     (True, init\<lparr>delivered := [(0, \<lparr>ev_type = ''session.created'', ev_fields = []\<rparr>)]\<rparr>) \<and>
   eventListeners (run2 stringify0 parse0 subscribed init) = [thrower, quiet] \<and>
   delivered (run2 stringify0 parse0 subscribed init) =
     [(0, \<lparr>ev_type = ''session.created'', ev_fields = []\<rparr>)] \<and>
   console (run2 stringify0 parse0 subscribed init) = [] \<and>
   delivered (run1 stringify0 parse0 subscribed init) =
     [(0, \<lparr>ev_type = ''session.created'', ev_fields = []\<rparr>),
      (1, \<lparr>ev_type = ''session.created'', ev_fields = []\<rparr>)] \<and>
   console (run1 stringify0 parse0 subscribed init) = [(Err, msg_listener_error)]"
  by (simp add: subscribed_def thrower_def quiet_def all_defs)

text \<open>
  In both variants the listeners a data channel delivers to are the value of
  \<^verbatim>\<open>eventListeners\<close> in the closure of the \<^verbatim>\<open>connect\<close> that created the channel.  After an
  automatic reconnection that is the first render's empty list: a message on the new
  channel reaches no listener, whatever is registered.
\<close>

lemma reconnect_forgets_listeners:
  "eventListeners (run1 stringify0 parse0 resubscribed init) = [quiet] \<and>
   dcRef (run1 stringify0 parse0 resubscribed init) = Some 1 \<and>
   readyState (dcs (run1 stringify0 parse0 resubscribed init) 1) = Dc_open \<and>
   delivered (run1 stringify0 parse0 resubscribed init) = [] \<and>
   eventListeners (run2 stringify0 parse0 resubscribed init) = [quiet] \<and>
   dcRef (run2 stringify0 parse0 resubscribed init) = Some 1 \<and>
   delivered (run2 stringify0 parse0 resubscribed init) = []"
  by (simp add: resubscribed_def quiet_def all_defs)

end
